theory Spec2Isabelle
  imports Main "HOL-Library.Word" "HOL-Library.Sublist"
begin

section \<open>Python values\<close>

text \<open>
  A Python \<open>str\<close> is a sequence of Unicode code points and a \<open>bytes\<close> object a
  sequence of octets.  A literal of the source is written \<open>py ''...''\<close>; a code point
  beyond ASCII is written as its number (\<open>231\<close> is c-cedilla, \<open>124\<close> is the pipe).
\<close>

type_synonym pystr = "nat list"
type_synonym bytes = "8 word list"

abbreviation (input) py :: "string \<Rightarrow> pystr" where
  "py s \<equiv> map of_char s"

abbreviation (input) pyb :: "string \<Rightarrow> bytes" where
  "pyb s \<equiv> map of_char s"

text \<open>
  The tables of the Unicode character database and of the \<open>unidecode\<close> package are not
  part of the repository.  They are a parameter of the model, consulted only for code
  points beyond ASCII; on ASCII the functions below are fixed.
  \<^item> \<open>decimal\<close>: general category Nd (what the pattern \<open>\d\<close> matches);
  \<^item> \<open>alnum\<close>: \<open>str.isalnum\<close> (what \<open>\w\<close> matches, besides the underscore);
  \<^item> \<open>upper_map\<close>: the full upper-case mapping of one code point;
  \<^item> \<open>lower_map\<close>: the lower-case mapping of the code point at an index of a string
    (the mapping of capital sigma depends on its context);
  \<^item> \<open>translit\<close>: the transliteration \<open>unidecode\<close> gives one code point.
\<close>

record unicode_db =
  decimal :: "nat \<Rightarrow> bool"
  alnum :: "nat \<Rightarrow> bool"
  upper_map :: "nat \<Rightarrow> pystr"
  lower_map :: "pystr \<Rightarrow> nat \<Rightarrow> pystr"
  translit :: "nat \<Rightarrow> pystr"

definition ascii_db :: unicode_db where
  "ascii_db = \<lparr> decimal = (\<lambda>c. False), alnum = (\<lambda>c. False), upper_map = (\<lambda>c. [c]),
                lower_map = (\<lambda>s i. [s ! i]), translit = (\<lambda>c. []) \<rparr>"

text \<open>\<open>Py_UNICODE_ISSPACE\<close>: what \<open>str.strip()\<close> removes and the pattern \<open>\s\<close> matches.\<close>

definition is_space :: "nat \<Rightarrow> bool" where
  "is_space c \<longleftrightarrow>
     (9 \<le> c \<and> c \<le> 13) \<or> (28 \<le> c \<and> c \<le> 32) \<or> c = 133 \<or> c = 160 \<or> c = 5760 \<or>
     (8192 \<le> c \<and> c \<le> 8202) \<or> c = 8232 \<or> c = 8233 \<or> c = 8239 \<or> c = 8287 \<or>
     c = 12288"

definition is_digit :: "unicode_db \<Rightarrow> nat \<Rightarrow> bool" where
  "is_digit U c = (if c < 128 then 48 \<le> c \<and> c \<le> 57 else decimal U c)"

definition is_word :: "unicode_db \<Rightarrow> nat \<Rightarrow> bool" where
  "is_word U c =
     (c = 95 \<or>
      (if c < 128 then (48 \<le> c \<and> c \<le> 57) \<or> (65 \<le> c \<and> c \<le> 90) \<or> (97 \<le> c \<and> c \<le> 122)
       else alnum U c))"

definition upper :: "unicode_db \<Rightarrow> pystr \<Rightarrow> pystr" where
  "upper U s =
     concat (map (\<lambda>c. if c < 128 then [if 97 \<le> c \<and> c \<le> 122 then c - 32 else c]
                        else upper_map U c) s)"

definition lower :: "unicode_db \<Rightarrow> pystr \<Rightarrow> pystr" where
  "lower U s =
     concat (map (\<lambda>i. if s ! i < 128
                        then [if 65 \<le> s ! i \<and> s ! i \<le> 90 then s ! i + 32 else s ! i]
                        else lower_map U s i) [0..<length s])"

definition unidecode :: "unicode_db \<Rightarrow> pystr \<Rightarrow> pystr" where
  "unidecode U s = concat (map (\<lambda>c. if c < 128 then [c] else translit U c) s)"

definition strip :: "pystr \<Rightarrow> pystr" where
  "strip s = rev (dropWhile is_space (rev (dropWhile is_space s)))"

definition rstrip :: "pystr \<Rightarrow> pystr \<Rightarrow> pystr" where
  "rstrip chars s = rev (dropWhile (\<lambda>c. c \<in> set chars) (rev s))"

definition replace_char :: "nat \<Rightarrow> nat \<Rightarrow> pystr \<Rightarrow> pystr" where
  "replace_char old new s = map (\<lambda>c. if c = old then new else c) s"

text \<open>\<open>sub in s\<close> on strings: \<open>sub\<close> occurs in \<open>s\<close> as a contiguous piece.\<close>

definition contains :: "pystr \<Rightarrow> pystr \<Rightarrow> bool" where
  "contains s sub = sublist sub s"

text \<open>
  \<open>str.zfill\<close>: zeros on the left up to the width, after a leading sign if there is
  one; a string that is already as long is returned as it is.
\<close>

definition zfill :: "nat \<Rightarrow> pystr \<Rightarrow> pystr" where
  "zfill width s =
     (if width \<le> length s then s
      else (case s of
              [] \<Rightarrow> replicate width 48
            | c # cs \<Rightarrow>
                if c = 43 \<or> c = 45 then c # replicate (width - length s) 48 @ cs
                else replicate (width - length s) 48 @ s))"

subsection \<open>The regular expressions of the source\<close>

text \<open>
  Every pattern of the source is a character class, alone or repeated.  \<open>re.sub\<close> and
  \<open>re.split\<close> scan from the left; a repeated class is greedy, so a match that starts
  at a position takes the whole run of the class from there.

  \<open>re_sub_runs P repl\<close> is \<open>re.sub\<close> for the pattern \<open>P+\<close>, and
  \<open>re_split_runs P n [] s\<close> is \<open>re.split\<close> for the pattern \<open>P{n,}\<close> (with \<open>n\<close>
  at least 1): the text before a match is a piece of the result, also when it is empty.
\<close>

function re_sub_runs :: "(nat \<Rightarrow> bool) \<Rightarrow> pystr \<Rightarrow> pystr \<Rightarrow> pystr" where
  "re_sub_runs P repl [] = []"
| "re_sub_runs P repl (c # cs) =
     (if P c then repl @ re_sub_runs P repl (dropWhile P cs)
      else c # re_sub_runs P repl cs)"
  by pat_completeness auto
termination
  by (relation "measure (\<lambda>(P, repl, s). length s)")
     (auto intro: le_imp_less_Suc length_dropWhile_le)

function re_split_runs :: "(nat \<Rightarrow> bool) \<Rightarrow> nat \<Rightarrow> pystr \<Rightarrow> pystr \<Rightarrow> pystr list" where
  "re_split_runs P n tok [] = [tok]"
| "re_split_runs P n tok (c # cs) =
     (if P c \<and> n \<le> length (takeWhile P (c # cs))
      then tok # re_split_runs P n [] (dropWhile P cs)
      else re_split_runs P n (tok @ [c]) cs)"
  by pat_completeness auto
termination
  by (relation "measure (\<lambda>(P, n, tok, s). length s)")
     (auto intro: le_imp_less_Suc length_dropWhile_le)

section \<open>Cells of a data frame\<close>

text \<open>
  A cell of a pandas frame holds a string, in the column \<open>is_repetido\<close> a boolean,
  or the missing value \<open>NaN\<close> (a float), with which pandas fills the rows it adds to
  a frame.  A function applied to a cell may also be handed Python's \<open>None\<close>, which
  is \<open>None\<close> here.
\<close>

datatype cell = Str pystr | Bool bool | NaN

fun str_of :: "cell \<Rightarrow> pystr" where
  "str_of (Str s) = s"
| "str_of (Bool b) = (if b then py ''True'' else py ''False'')"
| "str_of NaN = py ''nan''"

section \<open>Field normalisation (the local functions of \<open>parse_txt_to_df\<close>)\<close>

text \<open>\<open>pd.isna(s)\<close> holds of \<open>None\<close> and of \<open>NaN\<close>.\<close>

definition clean_txt :: "cell option \<Rightarrow> pystr" where
  "clean_txt s =
     (case s of
        None \<Rightarrow> []
      | Some v \<Rightarrow>
          if v = NaN then []
          else
            (let s2 = strip (str_of v);
                 s2 = replace_char 95 32 s2;
                 s2 = re_sub_runs is_space [32] s2
             in s2))"

definition norm_text :: "unicode_db \<Rightarrow> pystr \<Rightarrow> pystr" where
  "norm_text U s0 =
     (let s = upper U (unidecode U s0);
          s = strip s;
          s = map (\<lambda>c. if is_word U c \<or> is_space c then c else 32) s;
          s = re_sub_runs is_space [32] s
      in s)"

definition norm_cep :: "unicode_db \<Rightarrow> cell option \<Rightarrow> pystr" where
  "norm_cep U s0 =
     (case s0 of
        None \<Rightarrow> []
      | Some v \<Rightarrow>
          (let s = filter (is_digit U) (str_of v)
           in if s \<noteq> [] then zfill 8 s else []))"

section \<open>Byte decoder\<close>

text \<open>
  One step of CPython's UTF-8 decoder at the head of the remaining bytes (given as
  numbers): a code point and the number of bytes it took, or the length of the malformed
  range the decoder reports (an invalid start byte, the bytes before an invalid
  continuation byte, or all that is left of a sequence cut off by the end of the data).
  Overlong forms, surrogates and values past U+10FFFF are malformed.
\<close>

datatype utf8_result = Decoded nat nat | Malformed nat

definition is_cont :: "nat \<Rightarrow> bool" where
  "is_cont b \<longleftrightarrow> 128 \<le> b \<and> b < 192"

definition second_ok3 :: "nat \<Rightarrow> nat \<Rightarrow> bool" where
  "second_ok3 b0 b1 \<longleftrightarrow> is_cont b1 \<and> \<not> (if b1 < 160 then b0 = 224 else b0 = 237)"

definition second_ok4 :: "nat \<Rightarrow> nat \<Rightarrow> bool" where
  "second_ok4 b0 b1 \<longleftrightarrow> is_cont b1 \<and> \<not> (if b1 < 144 then b0 = 240 else b0 = 244)"

fun utf8_step :: "nat list \<Rightarrow> utf8_result" where
  "utf8_step [] = Malformed 1"
| "utf8_step (b0 # bs) =
     (if b0 < 128 then Decoded b0 1
      else if b0 < 194 then Malformed 1
      else if b0 < 224 then
        (case bs of
           [] \<Rightarrow> Malformed 1
         | b1 # _ \<Rightarrow>
             if is_cont b1 then Decoded ((b0 - 192) * 64 + (b1 - 128)) 2 else Malformed 1)
      else if b0 < 240 then
        (case bs of
           [] \<Rightarrow> Malformed 1
         | [b1] \<Rightarrow> if second_ok3 b0 b1 then Malformed 2 else Malformed 1
         | b1 # b2 # _ \<Rightarrow>
             if \<not> second_ok3 b0 b1 then Malformed 1
             else if \<not> is_cont b2 then Malformed 2
             else Decoded ((b0 - 224) * 4096 + (b1 - 128) * 64 + (b2 - 128)) 3)
      else if b0 < 245 then
        (case bs of
           [] \<Rightarrow> Malformed 1
         | [b1] \<Rightarrow> if second_ok4 b0 b1 then Malformed 2 else Malformed 1
         | [b1, b2] \<Rightarrow>
             if \<not> second_ok4 b0 b1 then Malformed 1
             else if \<not> is_cont b2 then Malformed 2
             else Malformed 3
         | b1 # b2 # b3 # _ \<Rightarrow>
             if \<not> second_ok4 b0 b1 then Malformed 1
             else if \<not> is_cont b2 then Malformed 2
             else if \<not> is_cont b3 then Malformed 3
             else Decoded ((b0 - 240) * 262144 + (b1 - 128) * 4096 + (b2 - 128) * 64
                            + (b3 - 128)) 4)
      else Malformed 1)"

text \<open>
  \<open>b.decode('utf-8')\<close>: \<open>None\<close> is \<open>UnicodeDecodeError\<close>.  A step takes at least
  one byte, so the rest is \<open>drop (n - 1)\<close> of the tail.
\<close>

function utf8_strict :: "nat list \<Rightarrow> pystr option" where
  "utf8_strict [] = Some []"
| "utf8_strict (b # bs) =
     (case utf8_step (b # bs) of
        Decoded c n \<Rightarrow> map_option ((#) c) (utf8_strict (drop (n - 1) bs))
      | Malformed n \<Rightarrow> None)"
  by pat_completeness auto
termination
  by (relation "measure length") auto

text \<open>\<open>b.decode('utf-8', errors='ignore')\<close>: a malformed range is left out.\<close>

function utf8_ignore :: "nat list \<Rightarrow> pystr" where
  "utf8_ignore [] = []"
| "utf8_ignore (b # bs) =
     (case utf8_step (b # bs) of
        Decoded c n \<Rightarrow> c # utf8_ignore (drop (n - 1) bs)
      | Malformed n \<Rightarrow> utf8_ignore (drop (n - 1) bs))"
  by pat_completeness auto
termination
  by (relation "measure length") auto

text \<open>
  The UTF-8 encoding of a code point.  It is not part of the source: it serves to say
  that a strict decoding accounts for every byte.
\<close>

definition utf8_encode :: "nat \<Rightarrow> nat list" where
  "utf8_encode c =
     (if c < 128 then [c]
      else if c < 2048 then [192 + c div 64, 128 + c mod 64]
      else if c < 65536 then [224 + c div 4096, 128 + c div 64 mod 64, 128 + c mod 64]
      else [240 + c div 262144, 128 + c div 4096 mod 64, 128 + c div 64 mod 64, 128 + c mod 64])"

text \<open>
  Code page 1252: the bytes 0x80 to 0x9F have their own table, five of them are
  undefined; every other byte is its own code point.
\<close>

definition cp1252_table :: "nat option list" where
  "cp1252_table =
     [Some 8364, None, Some 8218, Some 402, Some 8222, Some 8230, Some 8224, Some 8225,
      Some 710, Some 8240, Some 352, Some 8249, Some 338, None, Some 381, None,
      None, Some 8216, Some 8217, Some 8220, Some 8221, Some 8226, Some 8211, Some 8212,
      Some 732, Some 8482, Some 353, Some 8250, Some 339, None, Some 382, Some 376]"

definition cp1252_char :: "nat \<Rightarrow> nat option" where
  "cp1252_char b = (if 128 \<le> b \<and> b < 160 then cp1252_table ! (b - 128) else Some b)"

fun cp1252_decode :: "nat list \<Rightarrow> pystr option" where
  "cp1252_decode [] = Some []"
| "cp1252_decode (b # bs) =
     (case cp1252_char b of
        None \<Rightarrow> None
      | Some c \<Rightarrow> map_option ((#) c) (cp1252_decode bs))"

datatype encoding = UTF8 | Latin1 | CP1252

fun decode :: "encoding \<Rightarrow> bytes \<Rightarrow> pystr option" where
  "decode UTF8 b = utf8_strict (map unat b)"
| "decode Latin1 b = Some (map unat b)"
| "decode CP1252 b = cp1252_decode (map unat b)"

text \<open>
  The loop of \<open>try_decode_bytes\<close>, with the text it returns tagged by the attempt that
  produced it: one of the encodings, or the last resort after the loop.
\<close>

datatype attempt = Codec encoding | Last_resort

fun try_encodings :: "encoding list \<Rightarrow> bytes \<Rightarrow> attempt \<times> pystr" where
  "try_encodings [] b = (Last_resort, utf8_ignore (map unat b))"
| "try_encodings (enc # encodings) b =
     (case decode enc b of
        Some text \<Rightarrow> (Codec enc, text)
      | None \<Rightarrow> try_encodings encodings b)"

definition default_encodings :: "encoding list" where
  "default_encodings = [UTF8, Latin1, CP1252]"

definition try_decode_bytes :: "bytes \<Rightarrow> pystr" where
  "try_decode_bytes b = snd (try_encodings default_encodings b)"

section \<open>Lines, header and tokens\<close>

text \<open>
  \<open>str.splitlines()\<close>: a line ends at a line boundary (CR LF counts as one), the
  boundary is dropped, and nothing follows the last boundary of the text.
\<close>

definition is_linebreak :: "nat \<Rightarrow> bool" where
  "is_linebreak c \<longleftrightarrow>
     (10 \<le> c \<and> c \<le> 13) \<or> (28 \<le> c \<and> c \<le> 30) \<or> c = 133 \<or> c = 8232 \<or> c = 8233"

fun splitlines_from :: "pystr \<Rightarrow> pystr \<Rightarrow> pystr list" where
  "splitlines_from line [] = (if line = [] then [] else [line])"
| "splitlines_from line [c] =
     (if is_linebreak c then [line] else [line @ [c]])"
| "splitlines_from line (c # d # cs) =
     (if c = 13 \<and> d = 10 then line # splitlines_from [] cs
      else if is_linebreak c then line # splitlines_from [] (d # cs)
      else splitlines_from (line @ [c]) (d # cs))"

definition splitlines :: "pystr \<Rightarrow> pystr list" where
  "splitlines text = splitlines_from [] text"

definition nonblank_lines :: "pystr \<Rightarrow> pystr list" where
  "nonblank_lines text = map (rstrip [10, 13]) (filter (\<lambda>l. strip l \<noteq> []) (splitlines text))"

fun cabecalho_from :: "unicode_db \<Rightarrow> nat \<Rightarrow> pystr list \<Rightarrow> nat" where
  "cabecalho_from U i [] = 0"
| "cabecalho_from U i (l # ls) =
     (let low = lower U l
      in if contains low (py ''remetente'')
            \<and> (contains low (py ''endere'' @ [231] @ py ''o'') \<or> contains low (py ''endereco''))
            \<and> contains low (py ''cep'')
         then i
         else cabecalho_from U (Suc i) ls)"

definition encontrar_linha_cabecalho :: "unicode_db \<Rightarrow> pystr list \<Rightarrow> nat" where
  "encontrar_linha_cabecalho U linhas = cabecalho_from U 0 linhas"

definition split_linha :: "pystr \<Rightarrow> pystr list" where
  "split_linha linha =
     (if 9 \<in> set linha then re_split_runs (\<lambda>c. c = 9) 1 [] linha
      else
        (let cols = re_split_runs is_space 2 [] linha
         in if length cols = 1 then re_split_runs is_space 1 [] linha else cols))"

subsection \<open>Splitting on runs, in the words of the specification\<close>

text \<open>
  The specification says that a line is split on runs of tabs, or on runs of two or
  more (or of one or more) whitespace characters.  \<open>runs\<close> cuts a line into its
  maximal runs of characters that are all in the class or all outside it; a run is a
  delimiter when it is in the class and has at least \<open>n\<close> characters; \<open>pieces\<close>
  gives what stands between the delimiters.  These definitions are not taken from the
  source: \<open>split_linha\<close> is compared with them below.
\<close>

fun runs :: "('a \<Rightarrow> bool) \<Rightarrow> 'a list \<Rightarrow> 'a list list" where
  "runs P [] = []"
| "runs P (c # cs) =
     (case runs P cs of
        [] \<Rightarrow> [[c]]
      | r # rs \<Rightarrow> if P c = P (hd r) then (c # r) # rs else [c] # r # rs)"

fun pieces :: "('a list \<Rightarrow> bool) \<Rightarrow> 'a list \<Rightarrow> 'a list list \<Rightarrow> 'a list list" where
  "pieces d tok [] = [tok]"
| "pieces d tok (r # rs) = (if d r then tok # pieces d [] rs else pieces d (tok @ r) rs)"

definition split_on_runs :: "(nat \<Rightarrow> bool) \<Rightarrow> nat \<Rightarrow> pystr \<Rightarrow> pystr list" where
  "split_on_runs P n s = pieces (\<lambda>r. P (hd r) \<and> n \<le> length r) [] (runs P s)"

section \<open>Data frames\<close>

text \<open>
  A pandas frame, column by column: the label of each column (a label may occur twice)
  with its cells, in the order of the columns.  All columns of a frame have the same
  length, the number of its rows.
\<close>

type_synonym dataframe = "(pystr \<times> cell list) list"

datatype exn =
    KeyError pystr
  | ValueError pystr
  | TypeError pystr
  | AttributeError pystr
  | OSError pystr

text \<open>
  \<open>str(e)\<close>: the message, and for \<open>KeyError\<close> the \<open>repr\<close> of its argument,
  in double quotes when the argument holds a single quote and no double quote;
  \<open>repr\<close> is written out for an argument in which nothing needs an escape.
\<close>

fun exn_str :: "exn \<Rightarrow> pystr" where
  "exn_str (KeyError k) =
     (if 39 \<in> set k \<and> 34 \<notin> set k then [34] @ k @ [34] else [39] @ k @ [39])"
| "exn_str (ValueError m) = m"
| "exn_str (TypeError m) = m"
| "exn_str (AttributeError m) = m"
| "exn_str (OSError m) = m"

definition bind_exn :: "exn + 'a \<Rightarrow> ('a \<Rightarrow> exn + 'b) \<Rightarrow> exn + 'b" where
  "bind_exn r f = (case r of Inl e \<Rightarrow> Inl e | Inr x \<Rightarrow> f x)"

text \<open>
  The places where pandas itself raises on the frames of the source.  The wording of
  these exceptions belongs to the pandas version at hand and is a parameter below:
  \<open>bool()\<close> of a series; a frame of several columns assigned to a label the frame
  does not have; a frame assigned to a label that names another number of columns; a
  series whose index repeats a label, assigned to a frame with rows; and a list of
  labels (the second list) of which some (the first list) are not columns.
\<close>

datatype failure =
    Truth_value
  | Multiple_columns pystr
  | Same_length
  | Duplicate_index
  | Missing_labels "pystr list" "pystr list"

text \<open>
  What is left to pandas, as a parameter of the model.  \<open>read_csv\<close> stands for
  \<open>pd.read_csv(BASE_CSV, dtype=str).fillna('')\<close> on the content of the file and
  \<open>to_csv\<close> for the text \<open>dfb.to_csv(BASE_CSV, index=False)\<close> writes; either may
  raise.  \<open>message\<close> is the text of each exception above.  \<open>frame_sum\<close> is the
  outcome of the assignment of line 155 on a frame in which one of the normalised
  labels (\<open>endereco_norm\<close> or \<open>cep_norm\<close>, when the header of the file has them)
  names more than one column: the sum then adds a series and a frame, which pandas
  aligns by rules of its own.
\<close>

record pandas_io =
  read_csv :: "bytes \<Rightarrow> exn + dataframe"
  to_csv :: "dataframe \<Rightarrow> exn + bytes"
  message :: "failure \<Rightarrow> pystr"
  frame_sum :: "dataframe \<Rightarrow> exn + dataframe"

definition columns :: "dataframe \<Rightarrow> pystr list" where
  "columns df = map fst df"

text \<open>\<open>len(df)\<close>, the number of rows.\<close>

definition len_df :: "dataframe \<Rightarrow> nat" where
  "len_df df = (case df of [] \<Rightarrow> 0 | (l, vs) # _ \<Rightarrow> length vs)"

text \<open>\<open>pd.DataFrame(dados, columns=header)\<close>, for rows that all have \<open>len(header)\<close> cells.\<close>

definition DataFrame :: "cell list list \<Rightarrow> pystr list \<Rightarrow> dataframe" where
  "DataFrame dados header =
     map (\<lambda>i. (header ! i, map (\<lambda>r. r ! i) dados)) [0..<length header]"

text \<open>
  \<open>df[label]\<close>: \<open>KeyError\<close> for a label the frame does not have, the column as a
  series for a label it has once, and a frame of all the columns of that label when it
  occurs more than once.
\<close>

datatype selection = No_label | Series "cell list" | Frame

definition getitem :: "dataframe \<Rightarrow> pystr \<Rightarrow> selection" where
  "getitem df label =
     (case filter (\<lambda>(l, vs). l = label) df of
        [] \<Rightarrow> No_label
      | [(l, vs)] \<Rightarrow> Series vs
      | _ \<Rightarrow> Frame)"

text \<open>The number of columns that \<open>df[label]\<close> selects.\<close>

definition count_label :: "dataframe \<Rightarrow> pystr \<Rightarrow> nat" where
  "count_label df label = length (filter (\<lambda>(l, vs). l = label) df)"

text \<open>
  The cross-check of the upload uses a selected column as a series
  (\<open>.astype(str).tolist()\<close>, \<open>.apply\<close> of a function of one cell, a boolean mask).
  On a frame each of these raises; \<open>on_frame\<close> is the exception of the use at hand.
\<close>

definition series :: "exn \<Rightarrow> dataframe \<Rightarrow> pystr \<Rightarrow> exn + cell list" where
  "series on_frame df label =
     (case getitem df label of
        No_label \<Rightarrow> Inl (KeyError label)
      | Series vs \<Rightarrow> Inr vs
      | Frame \<Rightarrow> Inl on_frame)"

text \<open>
  \<open>df[label] = values\<close>: every column of that label is replaced; a new label is
  appended as the last column.
\<close>

definition setitem :: "dataframe \<Rightarrow> pystr \<Rightarrow> cell list \<Rightarrow> dataframe" where
  "setitem df label vs =
     (if label \<in> set (columns df)
      then map (\<lambda>(l, old). (l, if l = label then vs else old)) df
      else df @ [(label, vs)])"

definition setitem_scalar :: "dataframe \<Rightarrow> pystr \<Rightarrow> cell \<Rightarrow> dataframe" where
  "setitem_scalar df label v = setitem df label (replicate (len_df df) v)"

text \<open>
  \<open>df[[l1, l2, ...]]\<close>: the columns of these labels; \<open>KeyError\<close>, with a message that
  lists labels, if one is missing.
\<close>

definition select_columns :: "pandas_io \<Rightarrow> dataframe \<Rightarrow> pystr list \<Rightarrow> exn + dataframe" where
  "select_columns io df labels =
     (case filter (\<lambda>l. l \<notin> set (columns df)) labels of
        l # ls \<Rightarrow> Inl (KeyError (message io (Missing_labels (l # ls) labels)))
      | [] \<Rightarrow> Inr (concat (map (\<lambda>l. filter (\<lambda>(l', vs). l' = l) df) labels)))"

text \<open>\<open>df[flags]\<close> for a series of booleans: the rows whose flag is \<open>True\<close>, in order.\<close>

definition flagged :: "cell list \<Rightarrow> 'a list \<Rightarrow> 'a list" where
  "flagged flags vs = map snd (filter (\<lambda>(m, v). m = Bool True) (zip flags vs))"

definition select_rows :: "dataframe \<Rightarrow> cell list \<Rightarrow> dataframe" where
  "select_rows df flags = map (\<lambda>(l, vs). (l, flagged flags vs)) df"

text \<open>
  \<open>df[df[label]]\<close>, where the column was assigned from \<open>Series.apply\<close>.  On a
  frame with rows \<open>apply\<close> gives a series of booleans, a mask.  On a frame without
  rows it gives an empty series of dtype \<open>object\<close>, which pandas does not take for a
  mask but for a list of labels, here of none: the result is the frame without columns.
\<close>

definition getitem_flags :: "dataframe \<Rightarrow> cell list \<Rightarrow> dataframe" where
  "getitem_flags df flags = (if flags = [] then [] else select_rows df flags)"

definition head :: "nat \<Rightarrow> dataframe \<Rightarrow> dataframe" where
  "head n df = map (\<lambda>(l, vs). (l, take n vs)) df"

text \<open>\<open>pd.DataFrame()\<close>: no columns, no rows.\<close>

definition empty_frame :: dataframe where
  "empty_frame = []"

section \<open>The parser\<close>

definition Remetente :: pystr where "Remetente = py ''Remetente''"
definition EnderecoOrigem :: pystr where "EnderecoOrigem = py ''EnderecoOrigem''"
definition CEPOrigem :: pystr where "CEPOrigem = py ''CEPOrigem''"
definition remetente_norm :: pystr where "remetente_norm = py ''remetente_norm''"
definition endereco_norm :: pystr where "endereco_norm = py ''endereco_norm''"
definition cep_norm :: pystr where "cep_norm = py ''cep_norm''"
definition chave :: pystr where "chave = py ''chave''"

text \<open>The table builder: every row gets exactly as many cells as the header has.\<close>

definition build_row :: "pystr list \<Rightarrow> pystr \<Rightarrow> cell list" where
  "build_row header l =
     (let cols = split_linha l;
          cols = (if length cols < length header
                  then cols @ replicate (length header - length cols) []
                  else cols)
      in map Str (take (length header) cols))"

text \<open>The \<open>if\<close>/\<open>elif\<close> chain of the column mapper, for one raw column name.\<close>

definition canonical :: "unicode_db \<Rightarrow> pystr \<Rightarrow> pystr" where
  "canonical U c =
     (let c_low = lower U (strip c)
      in if contains c_low (py ''remetent'') then Remetente
         else if contains c_low (py ''endere'' @ [231] @ py ''o orig'')
                 \<or> contains c_low (py ''endereco orig'')
                 \<or> (contains c_low (py ''endere'' @ [231] @ py ''o'')
                     \<and> contains c_low (py ''orig''))
           then EnderecoOrigem
         else if contains c_low (py ''cep orig'')
                 \<or> (contains c_low (py ''cep'') \<and> contains c_low (py ''orig''))
           then CEPOrigem
         else if contains c_low (py ''endere'' @ [231] @ py ''o'')
                 \<and> contains c_low (py ''dest'')
           then py ''EnderecoDestino''
         else if contains c_low (py ''destinat'') then py ''Destinatario''
         else c)"

definition make_colmap :: "unicode_db \<Rightarrow> pystr list \<Rightarrow> (pystr \<rightharpoonup> pystr)" where
  "make_colmap U cols = fold (\<lambda>c colmap. colmap(c \<mapsto> canonical U c)) cols Map.empty"

definition rename :: "dataframe \<Rightarrow> (pystr \<rightharpoonup> pystr) \<Rightarrow> dataframe" where
  "rename df colmap =
     map (\<lambda>(l, vs). (case colmap l of Some n \<Rightarrow> n | None \<Rightarrow> l, vs)) df"

definition ensure_columns :: "dataframe \<Rightarrow> dataframe" where
  "ensure_columns df =
     fold (\<lambda>need df. if need \<notin> set (columns df) then setitem_scalar df need (Str []) else df)
          [Remetente, EnderecoOrigem, CEPOrigem] df"

text \<open>
  The functions of the source handed a whole series instead of a cell, which is what
  \<open>DataFrame.apply\<close> does.  \<open>clean_txt\<close> raises at \<open>if pd.isna(s)\<close>, the truth
  value of a series; \<open>norm_text\<close> raises in \<open>unidecode\<close>, which calls
  \<open>s.encode\<close>; \<open>norm_cep\<close> returns, for it takes \<open>str(s)\<close>, and of the series
  without rows that pandas hands it on a frame without rows \<open>str\<close> is
  \<open>Series([], dtype: float64)\<close>.
\<close>

definition ambiguous :: "pandas_io \<Rightarrow> exn" where
  "ambiguous io = ValueError (message io Truth_value)"

definition clean_txt_series :: "pandas_io \<Rightarrow> exn + pystr" where
  "clean_txt_series io = Inl (ambiguous io)"

definition norm_text_series :: "exn + pystr" where
  "norm_text_series =
     Inl (AttributeError (py [CHR 0x27] @ py ''Series'' @ py [CHR 0x27]
                          @ py '' object has no attribute '' @ py [CHR 0x27] @ py ''encode''
                          @ py [CHR 0x27]))"

definition norm_cep_series :: "unicode_db \<Rightarrow> exn + pystr" where
  "norm_cep_series U = Inr (norm_cep U (Some (Str (py ''Series([], dtype: float64)''))))"

text \<open>
  \<open>df[target] = frame\<close> for a frame without rows that has \<open>k\<close> columns, two or
  more: \<open>target\<close> must name \<open>k\<close> columns, which take the columns of the frame
  (without rows, as they were).
\<close>

definition setitem_frame :: "pandas_io \<Rightarrow> dataframe \<Rightarrow> pystr \<Rightarrow> nat \<Rightarrow> exn + dataframe" where
  "setitem_frame io df target k =
     (if count_label df target = 0 then Inl (ValueError (message io (Multiple_columns target)))
      else if count_label df target \<noteq> k then Inl (ValueError (message io Same_length))
      else Inr df)"

text \<open>
  \<open>df[target] = series\<close> on a frame without rows, for a series of \<open>k\<close> values
  (\<open>k > 0\<close>): the frame takes the index of the series, so it gets \<open>k\<close> rows, which
  are \<open>NaN\<close> in every column it had, and then the column is assigned.
\<close>

definition setitem_grow :: "dataframe \<Rightarrow> pystr \<Rightarrow> cell list \<Rightarrow> dataframe" where
  "setitem_grow df target vs =
     setitem (map (\<lambda>(l, old). (l, replicate (length vs) NaN)) df) target vs"

text \<open>
  \<open>df[target] = df[label].apply(f)\<close>; \<open>on_series\<close> is what \<open>f\<close> does with a
  series.  On a label that names one column the selection is a series and \<open>f\<close> gets
  its cells.  On a label that names several columns the selection is a frame, and
  \<open>DataFrame.apply\<close> hands \<open>f\<close> whole columns:
  \<^item> on a frame with rows, each column in turn; an exception of \<open>f\<close> ends the
    statement, and a value gives a series indexed by the repeated label, which cannot be
    aligned to the rows of the frame;
  \<^item> on a frame without rows, one series without rows, to see what \<open>f\<close> returns;
    an exception of \<open>f\<close> is swallowed there and \<open>apply\<close> returns the selected frame
    as it is, while a value gives a series with that value for each selected column.
\<close>

definition apply_column ::
  "pandas_io \<Rightarrow> dataframe \<Rightarrow> pystr \<Rightarrow> pystr \<Rightarrow> (cell \<Rightarrow> pystr) \<Rightarrow> exn + pystr
     \<Rightarrow> exn + dataframe" where
  "apply_column io df target label f on_series =
     (case getitem df label of
        No_label \<Rightarrow> Inl (KeyError label)
      | Series vs \<Rightarrow> Inr (setitem df target (map (\<lambda>v. Str (f v)) vs))
      | Frame \<Rightarrow>
          (case on_series of
             Inl e \<Rightarrow>
               if len_df df \<noteq> 0 then Inl e
               else setitem_frame io df target (count_label df label)
           | Inr r \<Rightarrow>
               if len_df df \<noteq> 0 then Inl (ValueError (message io Duplicate_index))
               else Inr (setitem_grow df target (replicate (count_label df label) (Str r)))))"

text \<open>
  \<open>a + '|' + b + '|' + c\<close> on three series, cell by cell; where a cell is \<open>NaN\<close>
  the sum is \<open>NaN\<close>.  (The three columns hold strings and \<open>NaN\<close> only.)
\<close>

definition chave_str :: "pystr \<Rightarrow> pystr \<Rightarrow> pystr \<Rightarrow> pystr" where
  "chave_str r e c = r @ py ''|'' @ e @ py ''|'' @ c"

fun join_cells :: "cell \<Rightarrow> cell \<Rightarrow> cell \<Rightarrow> cell" where
  "join_cells (Str r) (Str e) (Str c) = Str (chave_str r e c)"
| "join_cells r e c = NaN"

definition join_keys :: "cell list \<Rightarrow> cell list \<Rightarrow> cell list \<Rightarrow> cell list" where
  "join_keys rn en cn = map (\<lambda>(r, e, c). join_cells r e c) (zip rn (zip en cn))"

text \<open>
  Line 155, \<open>df['chave'] = df['remetente_norm'] + '|' + df['endereco_norm'] + '|' +
  df['cep_norm']\<close>.  When one of the three labels names several columns the sum is
  pandas' own (\<open>frame_sum\<close>).
\<close>

definition concat_keys :: "pandas_io \<Rightarrow> dataframe \<Rightarrow> exn + dataframe" where
  "concat_keys io df =
     (case getitem df remetente_norm of
        No_label \<Rightarrow> Inl (KeyError remetente_norm)
      | Frame \<Rightarrow> frame_sum io df
      | Series rn \<Rightarrow>
          (case getitem df endereco_norm of
             No_label \<Rightarrow> Inl (KeyError endereco_norm)
           | Frame \<Rightarrow> frame_sum io df
           | Series en \<Rightarrow>
               (case getitem df cep_norm of
                  No_label \<Rightarrow> Inl (KeyError cep_norm)
                | Frame \<Rightarrow> frame_sum io df
                | Series cn \<Rightarrow> Inr (setitem df chave (join_keys rn en cn)))))"

text \<open>
  The three clean-up steps, the three normalised columns and the key, in the order of
  the source; the first exception ends the function.
\<close>

definition add_keys :: "unicode_db \<Rightarrow> pandas_io \<Rightarrow> dataframe \<Rightarrow> exn + dataframe" where
  "add_keys U io df0 =
     bind_exn (apply_column io df0 Remetente Remetente (\<lambda>v. clean_txt (Some v))
                 (clean_txt_series io)) (\<lambda>df1.
     bind_exn (apply_column io df1 EnderecoOrigem EnderecoOrigem (\<lambda>v. clean_txt (Some v))
                 (clean_txt_series io)) (\<lambda>df2.
     bind_exn (apply_column io df2 CEPOrigem CEPOrigem (\<lambda>v. clean_txt (Some v))
                 (clean_txt_series io)) (\<lambda>df3.
     bind_exn (apply_column io df3 remetente_norm Remetente (\<lambda>v. norm_text U (str_of v))
                 norm_text_series) (\<lambda>df4.
     bind_exn (apply_column io df4 endereco_norm EnderecoOrigem (\<lambda>v. norm_text U (str_of v))
                 norm_text_series) (\<lambda>df5.
     bind_exn (apply_column io df5 cep_norm CEPOrigem (\<lambda>v. norm_cep U (Some v))
                 (norm_cep_series U)) (\<lambda>df6.
       concat_keys io df6))))))"

text \<open>
  The frames on which each of these statements selects a series: none of the labels
  they read names more than one column.
\<close>

definition selects_series :: "dataframe \<Rightarrow> bool" where
  "selects_series df \<longleftrightarrow>
     list_all (\<lambda>l. count_label df l \<le> 1)
       [Remetente, EnderecoOrigem, CEPOrigem, remetente_norm, endereco_norm, cep_norm]"

text \<open>
  The two files of the application, and the file system as the content of each file
  that exists.
\<close>

datatype path = BASE_TXT | BASE_CSV

type_synonym files = "path \<Rightarrow> bytes option"

definition open_rb :: "files \<Rightarrow> path \<Rightarrow> exn + bytes" where
  "open_rb fs p =
     (case fs p of
        None \<Rightarrow> Inl (OSError (py ''No such file or directory''))
      | Some raw \<Rightarrow> Inr raw)"

text \<open>
  Lines 84 to 120 of \<open>parse_txt_to_df\<close>: the frame of the records under the header
  line, with its columns renamed and the three required columns ensured.
\<close>

definition build_frame :: "unicode_db \<Rightarrow> pystr list \<Rightarrow> dataframe" where
  "build_frame U linhas =
     (let idx = encontrar_linha_cabecalho U linhas;
          header = split_linha (linhas ! idx);
          data_lines = drop (idx + 1) linhas;
          dados = map (build_row header) data_lines;
          df = DataFrame dados header;
          colmap = make_colmap U (columns df);
          df = rename df colmap;
          df = ensure_columns df
      in df)"

text \<open>
  The body of \<open>parse_txt_to_df\<close> from the decoded text on.
\<close>

definition parse_text :: "unicode_db \<Rightarrow> pandas_io \<Rightarrow> pystr \<Rightarrow> exn + dataframe" where
  "parse_text U io text =
     (let linhas = nonblank_lines text
      in if linhas = [] then Inr empty_frame
         else add_keys U io (build_frame U linhas))"

text \<open>
  \<open>parse_txt_to_df(path_or_bytes, is_bytes)\<close>: \<open>Inr raw\<close> is the call with bytes,
  \<open>Inl p\<close> the call with a path.
\<close>

definition parse_txt_to_df ::
  "unicode_db \<Rightarrow> pandas_io \<Rightarrow> files \<Rightarrow> path + bytes \<Rightarrow> exn + dataframe" where
  "parse_txt_to_df U io fs path_or_bytes =
     (case path_or_bytes of
        Inr raw \<Rightarrow> parse_text U io (try_decode_bytes raw)
      | Inl p \<Rightarrow> bind_exn (open_rb fs p) (\<lambda>raw. parse_text U io (try_decode_bytes raw)))"

section \<open>Application state\<close>

text \<open>
  The two globals of the module and the two files under \<open>data/\<close>.  Reading and
  writing CSV is pandas' work (\<open>read_csv\<close>, \<open>to_csv\<close>).  The \<open>print\<close> calls and
  the creation of the directory are left out.
\<close>

record state =
  DF_BASE :: "dataframe option"
  DF_MATCH :: "dataframe option"
  disk :: files

text \<open>The first half of \<open>ensure_base_loaded\<close>: the snapshot \<open>base.csv\<close>, if there is one.\<close>

definition load_snapshot :: "unicode_db \<Rightarrow> pandas_io \<Rightarrow> state \<Rightarrow> state" where
  "load_snapshot U io s =
     (case disk s BASE_CSV of
        None \<Rightarrow> s
      | Some csv \<Rightarrow>
          (case read_csv io csv of
             Inl e \<Rightarrow> s\<lparr>DF_BASE := None\<rparr>
           | Inr df \<Rightarrow>
               if chave \<notin> set (columns df)
               then (case parse_txt_to_df U io (disk s) (Inl BASE_CSV) of
                       Inl e \<Rightarrow> s\<lparr>DF_BASE := None\<rparr>
                     | Inr df' \<Rightarrow> s\<lparr>DF_BASE := Some df'\<rparr>)
               else s\<lparr>DF_BASE := Some df\<rparr>))"

text \<open>The second half: the base is still \<open>None\<close>, so it is built from \<open>base.txt\<close>.\<close>

definition convert_txt :: "unicode_db \<Rightarrow> pandas_io \<Rightarrow> state \<Rightarrow> exn + state" where
  "convert_txt U io s =
     (if disk s BASE_TXT = None
      then Inr (s\<lparr>DF_BASE := Some [(Remetente, []), (EnderecoOrigem, []), (CEPOrigem, []),
                                    (chave, [])]\<rparr>)
      else bind_exn (parse_txt_to_df U io (disk s) (Inl BASE_TXT)) (\<lambda>dfb.
             (let s' = (case to_csv io dfb of
                          Inl e \<Rightarrow> s
                        | Inr out \<Rightarrow> s\<lparr>disk := (disk s)(BASE_CSV \<mapsto> out)\<rparr>)
              in Inr (s'\<lparr>DF_BASE := Some dfb\<rparr>))))"

definition ensure_base_loaded :: "unicode_db \<Rightarrow> pandas_io \<Rightarrow> state \<Rightarrow> exn + state" where
  "ensure_base_loaded U io s =
     (if DF_BASE s \<noteq> None then Inr s
      else
        (let s1 = load_snapshot U io s
         in if DF_BASE s1 = None then convert_txt U io s1 else Inr s1))"

section \<open>The upload route\<close>

text \<open>
  The cross-check of \<open>upload_dia\<close>: the set of the keys of the base, the column
  \<open>is_repetido\<close>, and the rows of the daily frame whose flag is set.
\<close>

definition is_repetido :: pystr where "is_repetido = py ''is_repetido''"

fun in_keys :: "cell \<Rightarrow> pystr set \<Rightarrow> bool" where
  "in_keys (Str k) base_keys = (k \<in> base_keys)"
| "in_keys (Bool b) base_keys = False"
| "in_keys NaN base_keys = False"

definition repetidos :: "dataframe \<Rightarrow> dataframe \<Rightarrow> exn + dataframe" where
  "repetidos base df_dia =
     bind_exn (series (AttributeError (py ''DataFrame object has no attribute tolist''))
                 base chave) (\<lambda>bk.
       (let base_keys = set (map str_of bk)
        in bind_exn (series (TypeError (py ''unhashable type: Series'')) df_dia chave) (\<lambda>ks.
             (let df_dia = setitem df_dia is_repetido
                             (map (\<lambda>k. Bool (in_keys k base_keys)) ks)
              in bind_exn (series (ValueError (py ''cannot reindex on an axis with duplicate labels''))
                             df_dia is_repetido) (\<lambda>flags.
                   Inr (getitem_flags df_dia flags))))))"

text \<open>The request: the uploaded file, if any, with what \<open>f.read()\<close> gives or raises.\<close>

record upload =
  filename :: pystr
  content :: "exn + bytes"

datatype category = Danger | Warning | Success

datatype page = Redirect_index | Resultado dataframe nat

record response =
  flash_message :: pystr
  flash_category :: category
  shown :: page

function str_nat :: "nat \<Rightarrow> pystr" where
  "str_nat n = (if n < 10 then [48 + n] else str_nat (n div 10) @ [48 + n mod 10])"
  by pat_completeness auto
termination
  by (relation "measure id") auto

definition file_ext :: "unicode_db \<Rightarrow> pystr \<Rightarrow> pystr" where
  "file_ext U name =
     (if 46 \<in> set name then lower U (rev (takeWhile (\<lambda>c. c \<noteq> 46) (rev name))) else [])"

definition ALLOWED_EXT :: "pystr set" where
  "ALLOWED_EXT = {py ''txt'', py ''csv''}"

text \<open>
  The body of \<open>upload_dia\<close> after its \<open>try\<close> block succeeded with the frame of the
  day: the result is the state left behind and either the response or the exception that
  escapes the handler.
\<close>

definition cruzar :: "pandas_io \<Rightarrow> state \<Rightarrow> dataframe \<Rightarrow> state \<times> (exn + response)" where
  "cruzar io s df_dia =
     (case DF_BASE s of
        None \<Rightarrow> (s, Inl (TypeError (py ''NoneType object is not subscriptable'')))
      | Some base \<Rightarrow>
          (case repetidos base df_dia of
             Inl e \<Rightarrow> (s, Inl e)
           | Inr df_repetidos \<Rightarrow>
               (let s' = s\<lparr>DF_MATCH := Some df_repetidos\<rparr>;
                    count = len_df df_repetidos
                in case select_columns io df_repetidos [Remetente, EnderecoOrigem, CEPOrigem] of
                     Inl e \<Rightarrow> (s', Inl e)
                   | Inr preview \<Rightarrow>
                       (s', Inr \<lparr>flash_message =
                                   py ''Processado. '' @ str_nat count
                                   @ py '' endere'' @ [231] @ py ''os j'' @ [225]
                                   @ py '' constam na base hist'' @ [243] @ py ''rica.'',
                                 flash_category = Success,
                                 shown = Resultado (head 500 preview) count\<rparr>))))"

definition upload_dia ::
  "unicode_db \<Rightarrow> pandas_io \<Rightarrow> upload option \<Rightarrow> state \<Rightarrow> state \<times> (exn + response)" where
  "upload_dia U io request_file s0 =
     (case ensure_base_loaded U io s0 of
        Inl e \<Rightarrow> (s0, Inl e)
      | Inr s \<Rightarrow>
          (case request_file of
             None \<Rightarrow>
               (s, Inr \<lparr>flash_message = py ''Nenhum arquivo enviado.'',
                        flash_category = Danger, shown = Redirect_index\<rparr>)
           | Some f \<Rightarrow>
               if filename f = []
               then (s, Inr \<lparr>flash_message = py ''Nenhum arquivo selecionado.'',
                             flash_category = Warning, shown = Redirect_index\<rparr>)
               else if file_ext U (filename f) \<notin> ALLOWED_EXT
               then (s, Inr \<lparr>flash_message =
                               py ''Formato n'' @ [227] @ py ''o permitido. Use .txt ou .csv'',
                             flash_category = Danger, shown = Redirect_index\<rparr>)
               else
                 (case bind_exn (content f) (\<lambda>raw. parse_txt_to_df U io (disk s) (Inr raw)) of
                    Inl e \<Rightarrow>
                      (s, Inr \<lparr>flash_message = py ''Erro ao ler arquivo do dia: '' @ exn_str e,
                               flash_category = Danger, shown = Redirect_index\<rparr>)
                  | Inr df_dia \<Rightarrow> cruzar io s df_dia)))"

section \<open>Example inputs\<close>

text \<open>
  The messages of pandas 2, with the labels of a list in quotes and between commas.
\<close>

fun label_list :: "pystr list \<Rightarrow> pystr" where
  "label_list [] = []"
| "label_list [l] = py [CHR 0x27] @ l @ py [CHR 0x27]"
| "label_list (l # ls) = py [CHR 0x27] @ l @ py [CHR 0x27] @ py '', '' @ label_list ls"

fun pandas2_message :: "failure \<Rightarrow> pystr" where
  "pandas2_message Truth_value =
     py ''The truth value of a Series is ambiguous. Use a.empty, a.bool(), a.item(), a.any() or a.all().''"
| "pandas2_message (Multiple_columns l) =
     py ''Cannot set a DataFrame with multiple columns to the single column '' @ l"
| "pandas2_message Same_length = py ''Columns must be same length as key''"
| "pandas2_message Duplicate_index = py ''cannot reindex on an axis with duplicate labels''"
| "pandas2_message (Missing_labels missing labels) =
     (if missing = labels
      then py ''None of [Index(['' @ label_list labels @ py ''], dtype='' @ py [CHR 0x27]
           @ py ''object'' @ py [CHR 0x27] @ py '')] are in the [columns]''
      else py ''['' @ label_list missing @ py ''] not in index'')"

text \<open>
  A pandas that cannot read or write CSV; and a \<open>data/\<close> directory with a snapshot
  \<open>base.csv\<close> of two columns, neither of them the key, which pandas reads as such,
  beside a \<open>base.txt\<close> of one record.  In both examples pandas has the messages above
  and raises on the sum of a series and a frame.
\<close>

definition io_none :: pandas_io where
  "io_none = \<lparr>read_csv = (\<lambda>raw. Inl (OSError [])), to_csv = (\<lambda>df. Inl (OSError [])),
              message = pandas2_message,
              frame_sum = (\<lambda>df. Inl (ValueError (pandas2_message Duplicate_index)))\<rparr>"

definition io_csv :: pandas_io where
  "io_csv = \<lparr>read_csv = (\<lambda>raw. Inr [(Remetente, [Str (py ''Ab'')]), (py ''CEP'', [Str (py ''12'')])]),
             to_csv = (\<lambda>df. Inl (OSError [])),
             message = pandas2_message,
             frame_sum = (\<lambda>df. Inl (ValueError (pandas2_message Duplicate_index)))\<rparr>"

definition disk_csv_txt :: files where
  "disk_csv_txt =
     (\<lambda>p. case p of
            BASE_CSV \<Rightarrow> Some (pyb ''Remetente,CEP\<newline>Ab,12'')
          | BASE_TXT \<Rightarrow> Some (pyb ''Remetente  CEP Origem\<newline>Ab  1-2''))"

section \<open>Properties of the normalisation\<close>

lemma replicate_numeral: "replicate (numeral k) x = x # replicate (pred_numeral k) x"
  by (simp add: numeral_eq_Suc)

lemma is_digit_not_sign: "is_digit U c \<Longrightarrow> c \<noteq> 43 \<and> c \<noteq> 45"
  by (auto simp: is_digit_def split: if_splits)

lemma norm_cep_Str:
  "norm_cep U (Some (Str s)) =
     (if filter (is_digit U) s = [] then []
      else replicate (8 - length (filter (is_digit U) s)) 48 @ filter (is_digit U) s)"
proof (cases "filter (is_digit U) s")
  case Nil
  then show ?thesis by (simp add: norm_cep_def)
next
  case (Cons d ds)
  then have "d \<in> set (filter (is_digit U) s)" by simp
  then have "is_digit U d" by simp
  then have "d \<noteq> 43 \<and> d \<noteq> 45" by (rule is_digit_not_sign)
  with Cons show ?thesis
    by (simp add: norm_cep_def zfill_def Let_def)
qed

lemma norm_cep_examples:
  "norm_cep U (Some (Str (py ''12.345-678''))) = py ''12345678''"
  "norm_cep U (Some (Str (py ''123''))) = py ''00000123''"
  "norm_cep U (Some (Str [])) = []"
  by (simp_all add: norm_cep_def is_digit_def zfill_def replicate_numeral)

text \<open>Postal normalisation is a fixed point.\<close>

lemma norm_cep_idem:
  "norm_cep U (Some (Str (norm_cep U (Some (Str s))))) = norm_cep U (Some (Str s))"
proof (cases "filter (is_digit U) s = []")
  case True
  then show ?thesis by (simp add: norm_cep_Str)
next
  case False
  let ?d = "filter (is_digit U) s"
  let ?r = "replicate (8 - length ?d) 48 @ ?d"
  have r: "norm_cep U (Some (Str s)) = ?r" using False by (simp add: norm_cep_Str)
  have z: "is_digit U 48" by (simp add: is_digit_def)
  have f: "filter (is_digit U) ?r = ?r" using z by simp
  have l: "8 - length ?r = 0" by simp
  have ne: "?r \<noteq> []" using False by simp
  show ?thesis unfolding r
    apply (subst norm_cep_Str)
    unfolding f using ne l by simp
qed

lemma set_re_sub_runs: "set (re_sub_runs P repl s) \<subseteq> set repl \<union> {c \<in> set s. \<not> P c}"
proof (induction P repl s rule: re_sub_runs.induct)
  case (1 P repl)
  then show ?case by simp
next
  case (2 P repl c cs)
  show ?case
  proof (cases "P c")
    case True
    have "set (dropWhile P cs) \<subseteq> set cs" by (auto dest: set_dropWhileD)
    with 2 True show ?thesis by auto
  next
    case False
    with 2 show ?thesis by auto
  qed
qed

text \<open>No normalised field holds a pipe.\<close>

lemma pipe_not_in_norm_text: "124 \<notin> set (norm_text U s)"
proof -
  let ?m = "map (\<lambda>c. if is_word U c \<or> is_space c then c else 32)
                (strip (upper U (unidecode U s)))"
  have w: "\<not> is_word U 124" by (simp add: is_word_def)
  have sp: "\<not> is_space 124" by (simp add: is_space_def)
  have "124 \<notin> set ?m"
  proof
    assume "124 \<in> set ?m"
    then have "124 \<in> (\<lambda>c. if is_word U c \<or> is_space c then c else 32)
                 ` set (strip (upper U (unidecode U s)))"
      by (simp only: set_map)
    then obtain c where "(124::nat) = (if is_word U c \<or> is_space c then c else 32)"
      by blast
    then show False using w sp by (simp split: if_splits)
  qed
  moreover have "set (norm_text U s) \<subseteq> set [32] \<union> {c \<in> set ?m. \<not> is_space c}"
    unfolding norm_text_def Let_def by (rule set_re_sub_runs)
  ultimately show ?thesis by auto
qed

lemma pipe_not_in_norm_cep: "124 \<notin> set (norm_cep U c)"
proof (cases c)
  case None
  then show ?thesis by (simp add: norm_cep_def)
next
  case (Some v)
  let ?d = "filter (is_digit U) (str_of v)"
  have "\<not> is_digit U 124" by (simp add: is_digit_def)
  then have d: "124 \<notin> set ?d" by auto
  have "set (zfill 8 ?d) \<subseteq> insert 48 (set ?d)"
    by (cases ?d) (auto simp: zfill_def)
  with d have "124 \<notin> set (zfill 8 ?d)" by auto
  with Some show ?thesis
    by (simp add: norm_cep_def Let_def)
qed

lemma split_at_pipe:
  assumes "a @ 124 # b = a' @ (124::nat) # b'" "124 \<notin> set a" "124 \<notin> set a'"
  shows "a = a' \<and> b = b'"
  using assms
proof (induction a arbitrary: a')
  case Nil
  then show ?case by (cases a') auto
next
  case (Cons x a)
  then show ?case by (cases a') auto
qed

lemma count_pipes_chave_str:
  "124 \<notin> set r \<Longrightarrow> 124 \<notin> set e \<Longrightarrow> 124 \<notin> set c \<Longrightarrow> count_list (chave_str r e c) 124 = 2"
  by (simp add: chave_str_def count_list_0_iff)

lemma chave_str_eq_iff:
  assumes "124 \<notin> set r" "124 \<notin> set r'" "124 \<notin> set e" "124 \<notin> set e'"
  shows "chave_str r e c = chave_str r' e' c' \<longleftrightarrow> r = r' \<and> e = e' \<and> c = c'"
proof
  assume "chave_str r e c = chave_str r' e' c'"
  then have eq: "r @ 124 # (e @ 124 # c) = r' @ 124 # (e' @ 124 # c')"
    by (simp add: chave_str_def)
  with assms have r: "r = r'" and "e @ 124 # c = e' @ 124 # c'"
    using split_at_pipe[of r "e @ 124 # c" r' "e' @ 124 # c'"] by simp_all
  with assms have "e = e' \<and> c = c'"
    using split_at_pipe[of e c e' c'] by simp
  with r show "r = r' \<and> e = e' \<and> c = c'" by simp
next
  assume "r = r' \<and> e = e' \<and> c = c'"
  then show "chave_str r e c = chave_str r' e' c'" by simp
qed

section \<open>Properties of the decoder\<close>

lemma two_digits_base64: "r < 64 \<Longrightarrow> (a * 64 + r) div 64 = a \<and> (a * 64 + r) mod 64 = (r::nat)"
  by simp

lemma three_digits_base64:
  assumes "m < 64" "r < 64"
  shows "(a * 4096 + m * 64 + r) div 4096 = a \<and> (a * 4096 + m * 64 + r) div 64 mod 64 = m
         \<and> (a * 4096 + m * 64 + r) mod 64 = (r::nat)"
proof -
  define c where "c = a * 4096 + m * 64 + r"
  have e: "c = (a * 64 + m) * 64 + r" by (simp add: c_def)
  have d: "c div 64 = a * 64 + m"
    using two_digits_base64[OF assms(2), of "a * 64 + m"] by (simp only: e)
  have r: "c mod 64 = r"
    using two_digits_base64[OF assms(2), of "a * 64 + m"] by (simp only: e)
  have "c div 4096 = c div 64 div 64"
    by (simp add: div_mult2_eq[symmetric])
  also have "\<dots> = a"
    using two_digits_base64[OF assms(1), of a] by (simp only: d)
  finally have "c div 4096 = a" .
  moreover have "c div 64 mod 64 = m"
    using two_digits_base64[OF assms(1), of a] by (simp only: d)
  ultimately show ?thesis using r unfolding c_def by simp
qed

lemma four_digits_base64:
  assumes "k < 64" "m < 64" "r < 64"
  shows "(a * 262144 + k * 4096 + m * 64 + r) div 262144 = a
         \<and> (a * 262144 + k * 4096 + m * 64 + r) div 4096 mod 64 = k
         \<and> (a * 262144 + k * 4096 + m * 64 + r) div 64 mod 64 = m
         \<and> (a * 262144 + k * 4096 + m * 64 + r) mod 64 = (r::nat)"
proof -
  define c where "c = a * 262144 + k * 4096 + m * 64 + r"
  have e: "c = (a * 64 + k) * 4096 + m * 64 + r" by (simp add: c_def)
  from three_digits_base64[OF assms(2,3), of "a * 64 + k"]
  have d: "c div 4096 = a * 64 + k" "c div 64 mod 64 = m" "c mod 64 = r"
    by (simp_all only: e)
  have "c div 262144 = c div 4096 div 64"
    by (simp add: div_mult2_eq[symmetric])
  also have "\<dots> = a"
    using two_digits_base64[OF assms(1), of a] by (simp only: d)
  finally have "c div 262144 = a" .
  moreover have "c div 4096 mod 64 = k"
    using two_digits_base64[OF assms(1), of a] by (simp only: d)
  ultimately show ?thesis using d unfolding c_def by simp
qed

lemma utf8_encode_two:
  assumes "194 \<le> b0" "b0 < 224" "is_cont b1"
  shows "utf8_encode ((b0 - 192) * 64 + (b1 - 128)) = [b0, b1]"
proof -
  from assms have b1: "128 \<le> b1" "b1 < 192" by (simp_all add: is_cont_def)
  define a r where "a = b0 - 192" and "r = b1 - 128"
  from assms b1 have ar: "2 \<le> a" "a < 32" "r < 64" "b0 = 192 + a" "b1 = 128 + r"
    by (simp_all add: a_def r_def)
  then have "128 \<le> a * 64 + r" "a * 64 + r < 2048" by simp_all
  with two_digits_base64[OF ar(3), of a] show ?thesis
    unfolding a_def[symmetric] r_def[symmetric] ar(4,5) by (simp add: utf8_encode_def)
qed

lemma utf8_encode_three:
  assumes "224 \<le> b0" "b0 < 240" "second_ok3 b0 b1" "is_cont b2"
  shows "utf8_encode ((b0 - 224) * 4096 + (b1 - 128) * 64 + (b2 - 128)) = [b0, b1, b2]"
proof -
  from assms have b: "128 \<le> b1" "b1 < 192" "128 \<le> b2" "b2 < 192" "b0 = 224 \<longrightarrow> 160 \<le> b1"
    by (auto simp: is_cont_def second_ok3_def split: if_splits)
  define a m r where "a = b0 - 224" and "m = b1 - 128" and "r = b2 - 128"
  from assms(1,2) b have ar: "a < 16" "m < 64" "r < 64" "b0 = 224 + a" "b1 = 128 + m"
    "b2 = 128 + r" "a = 0 \<longrightarrow> 32 \<le> m"
    by (auto simp: a_def m_def r_def)
  then have "2048 \<le> a * 4096 + m * 64 + r" "a * 4096 + m * 64 + r < 65536" by auto
  with three_digits_base64[OF ar(2,3), of a] show ?thesis
    unfolding a_def[symmetric] m_def[symmetric] r_def[symmetric] ar(4,5,6)
    by (simp add: utf8_encode_def)
qed

lemma utf8_encode_four:
  assumes "240 \<le> b0" "b0 < 245" "second_ok4 b0 b1" "is_cont b2" "is_cont b3"
  shows "utf8_encode ((b0 - 240) * 262144 + (b1 - 128) * 4096 + (b2 - 128) * 64 + (b3 - 128))
           = [b0, b1, b2, b3]"
proof -
  from assms have b: "128 \<le> b1" "b1 < 192" "128 \<le> b2" "b2 < 192" "128 \<le> b3" "b3 < 192"
    "b0 = 240 \<longrightarrow> 144 \<le> b1"
    by (auto simp: is_cont_def second_ok4_def split: if_splits)
  define a k m r where "a = b0 - 240" and "k = b1 - 128" and "m = b2 - 128" and "r = b3 - 128"
  from assms(1,2) b have ar: "k < 64" "m < 64" "r < 64" "b0 = 240 + a" "b1 = 128 + k"
    "b2 = 128 + m" "b3 = 128 + r" "a = 0 \<longrightarrow> 16 \<le> k"
    by (auto simp: a_def k_def m_def r_def)
  then have "65536 \<le> a * 262144 + k * 4096 + m * 64 + r" by auto
  with four_digits_base64[OF ar(1,2,3), of a] show ?thesis
    unfolding a_def[symmetric] k_def[symmetric] m_def[symmetric] r_def[symmetric] ar(4,5,6,7)
    by (simp add: utf8_encode_def)
qed

lemma utf8_step_encode:
  assumes "utf8_step (b # bs) = Decoded c n"
  shows "1 \<le> n \<and> utf8_encode c @ drop (n - 1) bs = b # bs"
proof -
  consider "b < 128" | "128 \<le> b" "b < 194" | "194 \<le> b" "b < 224" | "224 \<le> b" "b < 240"
    | "240 \<le> b" "b < 245" | "245 \<le> b"
    by linarith
  then show ?thesis
  proof cases
    case 1
    with assms show ?thesis by (auto simp: utf8_encode_def)
  next
    case 2
    with assms show ?thesis by simp
  next
    case 3
    with assms show ?thesis
      by (cases bs) (auto simp: utf8_encode_two split: if_splits)
  next
    case 4
    with assms show ?thesis
      by (auto simp: utf8_encode_three split: if_splits list.splits)
  next
    case 5
    with assms show ?thesis
      by (auto simp: utf8_encode_four split: if_splits list.splits)
  next
    case 6
    with assms show ?thesis by simp
  qed
qed

text \<open>Encoding what the strict decoder returns gives the bytes back.\<close>

lemma utf8_strict_lossless: "utf8_strict bs = Some cs \<Longrightarrow> concat (map utf8_encode cs) = bs"
proof (induction bs arbitrary: cs rule: utf8_strict.induct)
  case 1
  then show ?case by simp
next
  case (2 b bs)
  from "2.prems" obtain c n cs' where st: "utf8_step (b # bs) = Decoded c n"
    and rest: "utf8_strict (drop (n - 1) bs) = Some cs'" and cs: "cs = c # cs'"
    by (auto split: utf8_result.splits)
  from "2.IH"[OF st rest] have "concat (map utf8_encode cs') = drop (n - 1) bs" .
  with utf8_step_encode[OF st] cs show ?case by simp
qed

section \<open>Properties of the tokenizer\<close>

lemma runs_Nil_iff: "runs P s = [] \<longleftrightarrow> s = []"
  by (cases s) (auto split: list.splits)

lemma runs_hd: "runs P s = r # rs \<Longrightarrow> r \<noteq> [] \<and> hd r = hd s"
  by (cases s) (auto split: list.splits if_splits)

lemma concat_runs: "concat (runs P s) = s"
  by (induction s) (auto split: list.splits)

lemma runs_P_head:
  "P c \<Longrightarrow> runs P (c # cs) = (c # takeWhile P cs) # runs P (dropWhile P cs)"
proof (induction cs arbitrary: c)
  case Nil
  then show ?case by simp
next
  case (Cons a cs)
  show ?case
  proof (cases "P a")
    case True
    from Cons.IH[OF True] Cons.prems True show ?thesis by simp
  next
    case False
    have "runs P (a # cs) \<noteq> []"
      by (simp only: runs_Nil_iff) simp
    then obtain r rs where r: "runs P (a # cs) = r # rs"
      by (auto simp only: neq_Nil_conv)
    then have "hd r = a" using runs_hd by fastforce
    have "runs P (c # a # cs) = [c] # r # rs"
      using r \<open>hd r = a\<close> False Cons.prems
      by (subst runs.simps) (simp only: list.case if_False, simp)
    with r False show ?thesis by (simp del: runs.simps)
  qed
qed

text \<open>
  The scan of \<open>re.split\<close> for a repeated class gives the pieces between the runs of
  the class that are long enough.
\<close>

lemma re_split_runs_fields:
  "re_split_runs P n tok s = pieces (\<lambda>r. P (hd r) \<and> n \<le> length r) tok (runs P s)"
proof (induction P n tok s rule: re_split_runs.induct)
  case (1 P n tok)
  then show ?case by simp
next
  case (2 P n tok c cs)
  let ?d = "\<lambda>r. P (hd r) \<and> n \<le> length r"
  show ?case
  proof (cases "P c \<and> n \<le> length (takeWhile P (c # cs))")
    case True
    then have pc: "P c" and len: "n \<le> Suc (length (takeWhile P cs))" by auto
    have "re_split_runs P n [] (dropWhile P cs) = pieces ?d [] (runs P (dropWhile P cs))"
      using 2(1) True by blast
    with pc len
    have "re_split_runs P n tok (c # cs) = tok # pieces ?d [] (runs P (dropWhile P cs))"
      by simp
    moreover from pc len
    have "pieces ?d tok (runs P (c # cs)) = tok # pieces ?d [] (runs P (dropWhile P cs))"
      by (simp add: runs_P_head del: runs.simps)
    ultimately show ?thesis by simp
  next
    case False
    then have l: "re_split_runs P n tok (c # cs) = pieces ?d (tok @ [c]) (runs P cs)"
      using 2(2) by simp
    have "pieces ?d tok (runs P (c # cs)) = pieces ?d (tok @ [c]) (runs P cs)"
    proof (cases "P c")
      case pc: True
      with False have short: "\<not> n \<le> Suc (length (takeWhile P cs))" by auto
      from pc have "runs P (c # cs) = (c # takeWhile P cs) # runs P (dropWhile P cs)"
        by (rule runs_P_head)
      moreover have "pieces ?d (tok @ [c]) (runs P cs)
                       = pieces ?d (tok @ c # takeWhile P cs) (runs P (dropWhile P cs))"
      proof (cases cs)
        case Nil
        then show ?thesis by simp
      next
        case (Cons a as)
        show ?thesis
        proof (cases "P a")
          case True
          then have "runs P cs = (a # takeWhile P as) # runs P (dropWhile P as)"
            unfolding Cons by (rule runs_P_head)
          with True Cons short show ?thesis by simp
        next
          case False
          with Cons show ?thesis by simp
        qed
      qed
      ultimately show ?thesis using short pc by simp
    next
      case npc: False
      show ?thesis
      proof (cases "runs P cs")
        case Nil
        with npc show ?thesis by simp
      next
        case (Cons r rs)
        with npc show ?thesis by auto
      qed
    qed
    with l show ?thesis by simp
  qed
qed

section \<open>Properties of data frames\<close>

lemma bind_exn_Inr: "bind_exn r f = Inr y \<Longrightarrow> \<exists>x. r = Inr x \<and> f x = Inr y"
  by (cases r) (auto simp: bind_exn_def)

lemma replaced_column:
  "(l, ws) \<in> set (map (\<lambda>(k, old). (k, if k = l then vs else old)) df) \<Longrightarrow> ws = vs"
  by (induction df) auto

lemma filter_setitem_same:
  assumes "(k, ws) \<in> set (filter (\<lambda>(k, vs'). k = l) (setitem df l vs))"
  shows "k = l \<and> ws = vs"
proof (cases "l \<in> set (columns df)")
  case True
  from assms have k: "k = l" by simp
  with assms True have "(l, ws) \<in> set (map (\<lambda>(k, old). (k, if k = l then vs else old)) df)"
    by (simp add: setitem_def)
  then have "ws = vs" by (rule replaced_column)
  with k show ?thesis by simp
next
  case False
  then have "filter (\<lambda>(k, vs'). k = l) df = []"
    by (force simp: columns_def filter_empty_conv)
  with assms False show ?thesis
    by (simp add: setitem_def)
qed

text \<open>A column that was just assigned reads back as assigned.\<close>

lemma getitem_setitem_same: "getitem (setitem df l vs) l = Series ws \<Longrightarrow> ws = vs"
proof -
  assume a: "getitem (setitem df l vs) l = Series ws"
  let ?f = "filter (\<lambda>(l', vs'). l' = l) (setitem df l vs)"
  from a obtain l' where "?f = [(l', ws)]"
    by (auto simp: getitem_def split: list.splits)
  then have "(l', ws) \<in> set ?f" by simp
  then have "l' = l \<and> ws = vs" by (rule filter_setitem_same)
  then show ?thesis by simp
qed

lemma in_setitem_same: "(l, ws) \<in> set (setitem df l vs) \<Longrightarrow> ws = vs"
proof (cases "l \<in> set (columns df)")
  case True
  assume "(l, ws) \<in> set (setitem df l vs)"
  with True have "(l, ws) \<in> set (map (\<lambda>(k, old). (k, if k = l then vs else old)) df)"
    by (simp add: setitem_def)
  then show ?thesis by (rule replaced_column)
next
  case False
  assume "(l, ws) \<in> set (setitem df l vs)"
  with False show ?thesis
    by (force simp: setitem_def columns_def)
qed

lemma filter_replaced_other:
  "l' \<noteq> l \<Longrightarrow>
     filter (\<lambda>(k, vs'). k = l) (map (\<lambda>(k, old). (k, if k = l' then vs else old)) df)
       = filter (\<lambda>(k, vs'). k = l) df"
  by (induction df) auto

lemma filter_setitem_other:
  "l' \<noteq> l \<Longrightarrow> filter (\<lambda>(k, vs'). k = l) (setitem df l' vs) = filter (\<lambda>(k, vs'). k = l) df"
  by (simp add: setitem_def filter_replaced_other)

text \<open>Assigning one label leaves the columns of every other label as they were.\<close>

lemma getitem_setitem_other: "l' \<noteq> l \<Longrightarrow> getitem (setitem df l' vs) l = getitem df l"
  by (simp add: getitem_def filter_setitem_other)

lemma series_Inr: "series e df l = Inr vs \<longleftrightarrow> getitem df l = Series vs"
  by (auto simp: series_def split: selection.splits)

lemma labels_distinct:
  "remetente_norm \<noteq> endereco_norm" "remetente_norm \<noteq> cep_norm" "endereco_norm \<noteq> cep_norm"
  "chave \<noteq> remetente_norm" "chave \<noteq> endereco_norm" "chave \<noteq> cep_norm"
  "endereco_norm \<noteq> remetente_norm" "cep_norm \<noteq> remetente_norm" "cep_norm \<noteq> endereco_norm"
  by (simp_all add: remetente_norm_def endereco_norm_def cep_norm_def chave_def)

text \<open>How many columns a label names, before and after an assignment.\<close>

lemma getitem_Frame_iff: "getitem df l = Frame \<longleftrightarrow> 2 \<le> count_label df l"
  by (auto simp: getitem_def count_label_def split: list.splits)

lemma getitem_No_label_iff: "getitem df l = No_label \<longleftrightarrow> count_label df l = 0"
  by (auto simp: getitem_def count_label_def split: list.splits)

lemma count_label_0_iff: "count_label df l = 0 \<longleftrightarrow> l \<notin> set (columns df)"
  by (force simp: count_label_def columns_def filter_empty_conv)

lemma count_label_replaced:
  "count_label (map (\<lambda>(k, old). (k, g k old)) df) l = count_label df l"
  by (induction df) (auto simp: count_label_def)

lemma count_label_setitem:
  "count_label (setitem df t vs) l
     = (if t = l \<and> count_label df l = 0 then 1 else count_label df l)"
proof (cases "t \<in> set (columns df)")
  case True
  then have "count_label df t \<noteq> 0" by (simp add: count_label_0_iff)
  moreover from True have "count_label (setitem df t vs) l = count_label df l"
    by (simp add: setitem_def count_label_replaced)
  ultimately show ?thesis by auto
next
  case False
  then have "count_label df t = 0" by (simp add: count_label_0_iff)
  with False show ?thesis
    by (auto simp: setitem_def count_label_def)
qed

lemma count_label_setitem_grow:
  "count_label (setitem_grow df t vs) l
     = (if t = l \<and> count_label df l = 0 then 1 else count_label df l)"
  by (simp add: setitem_grow_def count_label_setitem count_label_replaced)

lemma columns_setitem:
  "columns (setitem df l vs) = (if l \<in> set (columns df) then columns df else columns df @ [l])"
proof -
  have "map fst (map (\<lambda>(k, old). (k, if k = l then vs else old)) df) = map fst df"
    by (induction df) auto
  then show ?thesis by (simp add: setitem_def columns_def)
qed

lemma set_columns_setitem: "set (columns (setitem df l vs)) = insert l (set (columns df))"
  by (auto simp: columns_setitem)

lemma set_columns_setitem_grow:
  "set (columns (setitem_grow df l vs)) = insert l (set (columns df))"
proof -
  have "columns (map (\<lambda>(k, old). (k, replicate (length vs) NaN)) df) = columns df"
    by (induction df) (auto simp: columns_def)
  then show ?thesis by (simp add: setitem_grow_def set_columns_setitem)
qed

text \<open>On a frame whose labels are all different every selection is a series.\<close>

lemma distinct_count_label: "distinct (columns df) \<Longrightarrow> count_label df l \<le> 1"
proof (induction df)
  case Nil
  then show ?case by (simp add: count_label_def)
next
  case (Cons c df)
  obtain k vs where c: "c = (k, vs)" by (cases c)
  show ?case
  proof (cases "k = l")
    case True
    with Cons.prems c have "l \<notin> set (columns df)" by (simp add: columns_def)
    then have "count_label df l = 0" by (simp add: count_label_0_iff)
    with True c show ?thesis by (simp add: count_label_def)
  next
    case False
    with Cons c show ?thesis by (simp add: count_label_def columns_def)
  qed
qed

lemma distinct_selects_series:
  assumes "distinct (columns df)"
  shows "selects_series df"
  using distinct_count_label[OF assms] by (simp add: selects_series_def)

text \<open>
  Whichever way \<open>apply_column\<close> returns, the frame has the columns it had and the
  target, and no label names more columns than before.
\<close>

lemma apply_column_labels:
  assumes "apply_column io df t l f on_series = Inr df'"
  shows "set (columns df') = insert t (set (columns df))"
    and "count_label df' l' = (if t = l' \<and> count_label df l' = 0 then 1 else count_label df l')"
proof -
  consider vs where "getitem df l = Series vs" "df' = setitem df t (map (\<lambda>v. Str (f v)) vs)"
    | "count_label df t \<noteq> 0" "df' = df"
    | vs where "df' = setitem_grow df t vs"
    using assms
    by (auto simp: apply_column_def setitem_frame_def split: selection.splits sum.splits if_splits)
  then have "set (columns df') = insert t (set (columns df))
    \<and> count_label df' l' = (if t = l' \<and> count_label df l' = 0 then 1 else count_label df l')"
  proof cases
    case 1
    then show ?thesis by (simp add: set_columns_setitem count_label_setitem)
  next
    case 2
    then show ?thesis by (auto simp: count_label_0_iff)
  next
    case 3
    then show ?thesis by (simp add: set_columns_setitem_grow count_label_setitem_grow)
  qed
  then show "set (columns df') = insert t (set (columns df))"
    and "count_label df' l' = (if t = l' \<and> count_label df l' = 0 then 1 else count_label df l')"
    by simp_all
qed

lemma apply_column_once:
  assumes "apply_column io df t l f on_series = Inr df'" and "count_label df l' \<le> 1"
  shows "count_label df' l' \<le> 1"
  using assms(2) by (simp add: apply_column_labels(2)[OF assms(1)])

lemma apply_column_Inr:
  assumes "apply_column io df t l f on_series = Inr df'" and "count_label df l \<le> 1"
  shows "\<exists>vs. getitem df l = Series vs \<and> df' = setitem df t (map (\<lambda>v. Str (f v)) vs)"
proof -
  from assms(2) have "getitem df l \<noteq> Frame" by (simp add: getitem_Frame_iff)
  with assms(1) show ?thesis
    by (auto simp: apply_column_def split: selection.splits)
qed

lemma selects_series_apply_column:
  assumes "apply_column io df t l f on_series = Inr df'" and "selects_series df"
  shows "selects_series df'"
  using assms(2) by (auto simp: selects_series_def apply_column_labels(2)[OF assms(1)])

lemma concat_keys_Inr:
  assumes "concat_keys io df6 = Inr df" and "selects_series df6"
  shows "\<exists>rn en cn. getitem df6 remetente_norm = Series rn \<and> getitem df6 endereco_norm = Series en
           \<and> getitem df6 cep_norm = Series cn \<and> df = setitem df6 chave (join_keys rn en cn)"
proof -
  from assms(2) have "getitem df6 remetente_norm \<noteq> Frame" "getitem df6 endereco_norm \<noteq> Frame"
    "getitem df6 cep_norm \<noteq> Frame"
    by (simp_all add: selects_series_def getitem_Frame_iff)
  with assms(1) show ?thesis
    by (auto simp: concat_keys_def split: selection.splits)
qed

text \<open>
  What \<open>add_keys\<close> returns on a frame where it selects series: the key column is
  assigned last, from the three normalised columns as they stand then.
\<close>

lemma add_keys_Inr:
  assumes "add_keys U io df0 = Inr df" and "selects_series df0"
  shows "\<exists>df6 vr ve vc.
           df = setitem df6 chave
                  (join_keys (map (\<lambda>v. Str (norm_text U (str_of v))) vr)
                             (map (\<lambda>v. Str (norm_text U (str_of v))) ve)
                             (map (\<lambda>v. Str (norm_cep U (Some v))) vc)) \<and>
           getitem df6 remetente_norm = Series (map (\<lambda>v. Str (norm_text U (str_of v))) vr) \<and>
           getitem df6 endereco_norm = Series (map (\<lambda>v. Str (norm_text U (str_of v))) ve) \<and>
           getitem df6 cep_norm = Series (map (\<lambda>v. Str (norm_cep U (Some v))) vc)"
proof -
  from assms(1) obtain df1 df2 df3 df4 df5 df6 where
    s1: "apply_column io df0 Remetente Remetente (\<lambda>v. clean_txt (Some v)) (clean_txt_series io)
           = Inr df1" and
    s2: "apply_column io df1 EnderecoOrigem EnderecoOrigem (\<lambda>v. clean_txt (Some v))
           (clean_txt_series io) = Inr df2" and
    s3: "apply_column io df2 CEPOrigem CEPOrigem (\<lambda>v. clean_txt (Some v)) (clean_txt_series io)
           = Inr df3" and
    s4: "apply_column io df3 remetente_norm Remetente (\<lambda>v. norm_text U (str_of v))
           norm_text_series = Inr df4" and
    s5: "apply_column io df4 endereco_norm EnderecoOrigem (\<lambda>v. norm_text U (str_of v))
           norm_text_series = Inr df5" and
    s6: "apply_column io df5 cep_norm CEPOrigem (\<lambda>v. norm_cep U (Some v)) (norm_cep_series U)
           = Inr df6" and
    s7: "concat_keys io df6 = Inr df"
    unfolding add_keys_def by (auto dest!: bind_exn_Inr)
  note o1 = selects_series_apply_column[OF s1 assms(2)]
  note o2 = selects_series_apply_column[OF s2 o1]
  note o3 = selects_series_apply_column[OF s3 o2]
  note o4 = selects_series_apply_column[OF s4 o3]
  note o5 = selects_series_apply_column[OF s5 o4]
  note o6 = selects_series_apply_column[OF s6 o5]
  from o3 have "count_label df3 Remetente \<le> 1" by (simp add: selects_series_def)
  from apply_column_Inr[OF s4 this] obtain vr where
    d4: "df4 = setitem df3 remetente_norm (map (\<lambda>v. Str (norm_text U (str_of v))) vr)"
    by blast
  from o4 have "count_label df4 EnderecoOrigem \<le> 1" by (simp add: selects_series_def)
  from apply_column_Inr[OF s5 this] obtain ve where
    d5: "df5 = setitem df4 endereco_norm (map (\<lambda>v. Str (norm_text U (str_of v))) ve)"
    by blast
  from o5 have "count_label df5 CEPOrigem \<le> 1" by (simp add: selects_series_def)
  from apply_column_Inr[OF s6 this] obtain vc where
    d6: "df6 = setitem df5 cep_norm (map (\<lambda>v. Str (norm_cep U (Some v))) vc)"
    by blast
  from concat_keys_Inr[OF s7 o6] obtain rn en cn where
    rn: "getitem df6 remetente_norm = Series rn" and
    en: "getitem df6 endereco_norm = Series en" and
    cn: "getitem df6 cep_norm = Series cn" and
    df: "df = setitem df6 chave (join_keys rn en cn)"
    by blast
  from rn have "getitem df4 remetente_norm = Series rn"
    by (simp add: d6 d5 getitem_setitem_other labels_distinct)
  then have rn': "rn = map (\<lambda>v. Str (norm_text U (str_of v))) vr"
    unfolding d4 by (rule getitem_setitem_same)
  from en have "getitem df5 endereco_norm = Series en"
    by (simp add: d6 getitem_setitem_other labels_distinct)
  then have en': "en = map (\<lambda>v. Str (norm_text U (str_of v))) ve"
    unfolding d5 by (rule getitem_setitem_same)
  from cn have cn': "cn = map (\<lambda>v. Str (norm_cep U (Some v))) vc"
    unfolding d6 by (rule getitem_setitem_same)
  from df rn en cn show ?thesis
    unfolding rn' en' cn' by blast
qed

section \<open>Properties of the parser\<close>

lemmas label_defs = Remetente_def EnderecoOrigem_def CEPOrigem_def remetente_norm_def
  endereco_norm_def cep_norm_def chave_def

lemma columns_DataFrame: "columns (DataFrame dados header) = header"
  by (simp add: columns_def DataFrame_def o_def map_nth)

lemma build_frame_stages:
  assumes "encontrar_linha_cabecalho U linhas = idx"
    and "split_linha (linhas ! idx) = header"
    and "map (build_row header) (drop (idx + 1) linhas) = dados"
    and "ensure_columns (rename (DataFrame dados header) (make_colmap U header)) = df"
  shows "build_frame U linhas = df"
  using assms by (simp add: build_frame_def Let_def columns_DataFrame)

lemma parse_text_stages:
  assumes "nonblank_lines text = linhas" and "linhas \<noteq> []"
    and "encontrar_linha_cabecalho U linhas = idx"
    and "split_linha (linhas ! idx) = header"
    and "map (build_row header) (drop (idx + 1) linhas) = dados"
    and "ensure_columns (rename (DataFrame dados header) (make_colmap U header)) = df"
  shows "parse_text U io text = add_keys U io df"
  using assms by (simp add: parse_text_def build_frame_def Let_def columns_DataFrame)

lemma parse_txt_to_df_text:
  "parse_txt_to_df U io fs src = Inr df \<Longrightarrow> \<exists>text. parse_text U io text = Inr df"
  by (cases src) (auto simp: parse_txt_to_df_def dest!: bind_exn_Inr)

lemma in_join_keys:
  assumes "k \<in> set (join_keys rn en cn)"
  shows "\<exists>r e c. r \<in> set rn \<and> e \<in> set en \<and> c \<in> set cn \<and> k = join_cells r e c"
proof -
  from assms obtain r e c where "(r, e, c) \<in> set (zip rn (zip en cn))"
    and k: "k = join_cells r e c"
    by (auto simp: join_keys_def)
  then have "r \<in> set rn" "e \<in> set en" "c \<in> set cn"
    by (auto dest: set_zip_leftD set_zip_rightD)
  with k show ?thesis by blast
qed

lemma add_keys_chave:
  assumes "add_keys U io df0 = Inr df" and "selects_series df0" and "(chave, ks) \<in> set df"
  shows "\<exists>rn en cn.
           getitem df remetente_norm = Series rn \<and> getitem df endereco_norm = Series en \<and>
           getitem df cep_norm = Series cn \<and> ks = join_keys rn en cn \<and>
           (\<forall>k \<in> set ks. \<exists>a b c.
              k = Str (chave_str (norm_text U a) (norm_text U b) (norm_cep U (Some c))))"
proof -
  let ?rn = "\<lambda>vr. map (\<lambda>v. Str (norm_text U (str_of v))) vr"
  let ?cn = "\<lambda>vc. map (\<lambda>v. Str (norm_cep U (Some v))) vc"
  from add_keys_Inr[OF assms(1,2)] obtain df6 vr ve vc where
    df: "df = setitem df6 chave (join_keys (?rn vr) (?rn ve) (?cn vc))" and
    rn: "getitem df6 remetente_norm = Series (?rn vr)" and
    en: "getitem df6 endereco_norm = Series (?rn ve)" and
    cn: "getitem df6 cep_norm = Series (?cn vc)"
    by blast
  from assms(3) have ks: "ks = join_keys (?rn vr) (?rn ve) (?cn vc)"
    unfolding df by (rule in_setitem_same)
  have "\<exists>a b c. k = Str (chave_str (norm_text U a) (norm_text U b) (norm_cep U (Some c)))"
    if "k \<in> set ks" for k
  proof -
    from that ks obtain r e c where "r \<in> set (?rn vr)" "e \<in> set (?rn ve)" "c \<in> set (?cn vc)"
      and k: "k = join_cells r e c"
      using in_join_keys by blast
    then obtain a b c' where "r = Str (norm_text U (str_of a))" "e = Str (norm_text U (str_of b))"
      "c = Str (norm_cep U (Some c'))"
      by auto
    with k show ?thesis by auto
  qed
  moreover from rn en cn have "getitem df remetente_norm = Series (?rn vr)"
    "getitem df endereco_norm = Series (?rn ve)" "getitem df cep_norm = Series (?cn vc)"
    unfolding df by (simp_all add: getitem_setitem_other labels_distinct)
  ultimately show ?thesis using ks by blast
qed

text \<open>
  The keys of a frame the parser returns, when no label that lines 133 to 155 read
  names more than one column of the frame built from the file: the column \<open>chave\<close>
  holds the three normalised columns joined by pipes, row by row; every key is made of a
  normalised sender, a normalised address and a normalised postal code, it holds exactly
  two pipes, and it is equal to the key made of three other normalised fields if and only
  if the fields are equal one by one (empty fields included).
\<close>

lemma parse_text_chave_two_pipes:
  assumes "parse_text U io text = Inr df"
    and "selects_series (build_frame U (nonblank_lines text))"
    and "(chave, ks) \<in> set df"
  shows "(\<exists>rn en cn.
            getitem df remetente_norm = Series rn \<and> getitem df endereco_norm = Series en \<and>
            getitem df cep_norm = Series cn \<and> ks = join_keys rn en cn)
         \<and> (\<forall>k \<in> set ks. \<exists>a b c.
               k = Str (chave_str (norm_text U a) (norm_text U b) (norm_cep U (Some c)))
               \<and> count_list (str_of k) 124 = 2
               \<and> (\<forall>a' b' c'.
                     str_of k = chave_str (norm_text U a') (norm_text U b') (norm_cep U (Some c'))
                     \<longleftrightarrow> norm_text U a = norm_text U a' \<and> norm_text U b = norm_text U b'
                          \<and> norm_cep U (Some c) = norm_cep U (Some c')))"
proof -
  have "nonblank_lines text \<noteq> []"
  proof
    assume "nonblank_lines text = []"
    with assms(1) have "df = empty_frame" by (simp add: parse_text_def)
    with assms(3) show False by (simp add: empty_frame_def)
  qed
  with assms(1) have "add_keys U io (build_frame U (nonblank_lines text)) = Inr df"
    by (simp add: parse_text_def Let_def)
  from add_keys_chave[OF this assms(2,3)] obtain rn en cn where
    cols: "getitem df remetente_norm = Series rn \<and> getitem df endereco_norm = Series en \<and>
           getitem df cep_norm = Series cn \<and> ks = join_keys rn en cn" and
    keys: "\<forall>k \<in> set ks. \<exists>a b c.
              k = Str (chave_str (norm_text U a) (norm_text U b) (norm_cep U (Some c)))"
    by blast
  have "\<exists>a b c.
          k = Str (chave_str (norm_text U a) (norm_text U b) (norm_cep U (Some c)))
          \<and> count_list (str_of k) 124 = 2
          \<and> (\<forall>a' b' c'.
                str_of k = chave_str (norm_text U a') (norm_text U b') (norm_cep U (Some c'))
                \<longleftrightarrow> norm_text U a = norm_text U a' \<and> norm_text U b = norm_text U b'
                     \<and> norm_cep U (Some c) = norm_cep U (Some c'))"
    if "k \<in> set ks" for k
  proof -
    from keys that obtain a b c where
      k: "k = Str (chave_str (norm_text U a) (norm_text U b) (norm_cep U (Some c)))"
      by blast
    have two: "count_list (str_of k) 124 = 2"
      unfolding k by (simp add: count_pipes_chave_str pipe_not_in_norm_text pipe_not_in_norm_cep)
    have inj: "str_of k = chave_str (norm_text U a') (norm_text U b') (norm_cep U (Some c'))
                \<longleftrightarrow> norm_text U a = norm_text U a' \<and> norm_text U b = norm_text U b'
                     \<and> norm_cep U (Some c) = norm_cep U (Some c')" for a' b' c'
      unfolding k by (simp add: chave_str_eq_iff pipe_not_in_norm_text)
    from k two inj show ?thesis by blast
  qed
  with cols show ?thesis by blast
qed

text \<open>
  The parser on a file of one header line and one record, stage by stage.
\<close>

lemma one_record_decode:
  "try_decode_bytes (pyb ''Remetente  CEP Origem\<newline>Ab  1-2'') = py ''Remetente  CEP Origem\<newline>Ab  1-2''"
  by (simp add: try_decode_bytes_def default_encodings_def)

lemma one_record_lines:
  "nonblank_lines (py ''Remetente  CEP Origem\<newline>Ab  1-2'') = [py ''Remetente  CEP Origem'', py ''Ab  1-2'']"
  by (simp add: nonblank_lines_def splitlines_def is_linebreak_def strip_def is_space_def rstrip_def)

lemma one_record_header_index:
  "encontrar_linha_cabecalho U [py ''Remetente  CEP Origem'', py ''Ab  1-2''] = 0"
  by (simp add: encontrar_linha_cabecalho_def lower_def upt_rec nth_Cons' contains_def sublist_code)

lemma one_record_header: "split_linha (py ''Remetente  CEP Origem'') = [py ''Remetente'', py ''CEP Origem'']"
  by (simp add: split_linha_def is_space_def)

lemma one_record_rows:
  "map (build_row [py ''Remetente'', py ''CEP Origem'']) [py ''Ab  1-2'']
     = [[Str (py ''Ab''), Str (py ''1-2'')]]"
  by (simp add: build_row_def split_linha_def is_space_def)

lemma canonical_Remetente: "canonical U (py ''Remetente'') = Remetente"
  by (simp add: canonical_def lower_def upt_rec nth_Cons' strip_def is_space_def contains_def
      sublist_code)

lemma canonical_CEP_Origem: "canonical U (py ''CEP Origem'') = CEPOrigem"
  by (simp add: canonical_def lower_def upt_rec nth_Cons' strip_def is_space_def contains_def
      sublist_code)

lemma one_record_frame:
  "ensure_columns (rename (DataFrame [[Str (py ''Ab''), Str (py ''1-2'')]]
                                     [py ''Remetente'', py ''CEP Origem''])
                          (make_colmap U [py ''Remetente'', py ''CEP Origem'']))
   = [(Remetente, [Str (py ''Ab'')]), (CEPOrigem, [Str (py ''1-2'')]), (EnderecoOrigem, [Str []])]"
  by (simp add: DataFrame_def make_colmap_def rename_def canonical_Remetente[simplified]
      canonical_CEP_Origem[simplified] ensure_columns_def columns_def
      setitem_scalar_def setitem_def len_df_def label_defs)

lemma one_record_values:
  "clean_txt (Some (Str (py ''Ab''))) = py ''Ab''"
  "clean_txt (Some (Str (py ''1-2''))) = py ''1-2''"
  "clean_txt (Some (Str [])) = []"
  "norm_text U (py ''Ab'') = py ''AB''"
  "norm_text U [] = []"
  "norm_cep U (Some (Str (py ''1-2''))) = py ''00000012''"
  by (simp_all add: clean_txt_def norm_text_def norm_cep_def strip_def is_space_def
      replace_char_def upper_def unidecode_def is_word_def is_digit_def zfill_def
      replicate_numeral)

lemma one_record_keys:
  "add_keys U io [(Remetente, [Str (py ''Ab'')]), (CEPOrigem, [Str (py ''1-2'')]),
                  (EnderecoOrigem, [Str []])]
   = Inr [(Remetente, [Str (py ''Ab'')]), (CEPOrigem, [Str (py ''1-2'')]),
          (EnderecoOrigem, [Str []]), (remetente_norm, [Str (py ''AB'')]),
          (endereco_norm, [Str []]), (cep_norm, [Str (py ''00000012'')]),
          (chave, [Str (py ''AB||00000012'')])]"
  by (simp add: add_keys_def apply_column_def concat_keys_def getitem_def bind_exn_def
      setitem_def columns_def label_defs join_keys_def chave_str_def
      one_record_values[simplified])

lemma one_record_parse:
  "parse_txt_to_df U io fs (Inr (pyb ''Remetente  CEP Origem\<newline>Ab  1-2''))
   = Inr [(Remetente, [Str (py ''Ab'')]), (CEPOrigem, [Str (py ''1-2'')]),
          (EnderecoOrigem, [Str []]), (remetente_norm, [Str (py ''AB'')]),
          (endereco_norm, [Str []]), (cep_norm, [Str (py ''00000012'')]),
          (chave, [Str (py ''AB||00000012'')])]"
proof -
  have "parse_text U io (py ''Remetente  CEP Origem\<newline>Ab  1-2'')
          = add_keys U io [(Remetente, [Str (py ''Ab'')]), (CEPOrigem, [Str (py ''1-2'')]),
                           (EnderecoOrigem, [Str []])]"
    by (rule parse_text_stages[OF one_record_lines _ one_record_header_index _ _ one_record_frame])
       (simp_all add: one_record_header[simplified] one_record_rows[simplified])
  then show ?thesis
    by (simp only: parse_txt_to_df_def sum.case one_record_decode one_record_keys)
qed

text \<open>
  The frame built from this file has three different labels, so the keys of the file are
  keys as \<open>parse_text_chave_two_pipes\<close> describes them.
\<close>

lemma one_record_build_frame:
  "build_frame U (nonblank_lines (py ''Remetente  CEP Origem\<newline>Ab  1-2''))
   = [(Remetente, [Str (py ''Ab'')]), (CEPOrigem, [Str (py ''1-2'')]), (EnderecoOrigem, [Str []])]"
  unfolding one_record_lines
  by (rule build_frame_stages[OF one_record_header_index _ _ one_record_frame])
     (simp_all add: one_record_header[simplified] one_record_rows[simplified])

lemma one_record_selects_series:
  "selects_series (build_frame U (nonblank_lines (py ''Remetente  CEP Origem\<newline>Ab  1-2'')))"
  unfolding one_record_build_frame
  by (rule distinct_selects_series) (simp add: columns_def label_defs)

lemma one_record_two_pipes:
  "parse_text ascii_db io_none (py ''Remetente  CEP Origem\<newline>Ab  1-2'')
     = Inr [(Remetente, [Str (py ''Ab'')]), (CEPOrigem, [Str (py ''1-2'')]),
            (EnderecoOrigem, [Str []]), (remetente_norm, [Str (py ''AB'')]),
            (endereco_norm, [Str []]), (cep_norm, [Str (py ''00000012'')]),
            (chave, [Str (py ''AB||00000012'')])]
   \<and> count_list (py ''AB||00000012'') 124 = 2"
proof -
  let ?df = "[(Remetente, [Str (py ''Ab'')]), (CEPOrigem, [Str (py ''1-2'')]),
            (EnderecoOrigem, [Str []]), (remetente_norm, [Str (py ''AB'')]),
            (endereco_norm, [Str []]), (cep_norm, [Str (py ''00000012'')]),
            (chave, [Str (py ''AB||00000012'')])]"
  have p: "parse_text ascii_db io_none (py ''Remetente  CEP Origem\<newline>Ab  1-2'') = Inr ?df"
    using one_record_parse[of ascii_db io_none "\<lambda>p. None"]
    by (simp only: parse_txt_to_df_def sum.case one_record_decode)
  have g: "(chave, [Str (py ''AB||00000012'')]) \<in> set ?df"
    by simp
  from parse_text_chave_two_pipes[OF p one_record_selects_series g]
  have "count_list (str_of (Str (py ''AB||00000012''))) 124 = 2"
    by simp
  with p show ?thesis by simp
qed

text \<open>
  The columns of what the parser returns, when none of the three normalised labels
  names more than one column of the frame built from the file.
\<close>

lemma columns_ensure_columns:
  "{Remetente, EnderecoOrigem, CEPOrigem} \<subseteq> set (columns (ensure_columns df))"
  by (auto simp: ensure_columns_def setitem_scalar_def set_columns_setitem)

lemma columns_add_keys:
  assumes "add_keys U io df0 = Inr df"
    and "list_all (\<lambda>l. count_label df0 l \<le> 1) [remetente_norm, endereco_norm, cep_norm]"
  shows "set (columns df) = set (columns df0)
           \<union> {Remetente, EnderecoOrigem, CEPOrigem, remetente_norm, endereco_norm, cep_norm, chave}"
proof -
  from assms(1) obtain df1 df2 df3 df4 df5 df6 where
    s1: "apply_column io df0 Remetente Remetente (\<lambda>v. clean_txt (Some v)) (clean_txt_series io)
           = Inr df1" and
    s2: "apply_column io df1 EnderecoOrigem EnderecoOrigem (\<lambda>v. clean_txt (Some v))
           (clean_txt_series io) = Inr df2" and
    s3: "apply_column io df2 CEPOrigem CEPOrigem (\<lambda>v. clean_txt (Some v)) (clean_txt_series io)
           = Inr df3" and
    s4: "apply_column io df3 remetente_norm Remetente (\<lambda>v. norm_text U (str_of v))
           norm_text_series = Inr df4" and
    s5: "apply_column io df4 endereco_norm EnderecoOrigem (\<lambda>v. norm_text U (str_of v))
           norm_text_series = Inr df5" and
    s6: "apply_column io df5 cep_norm CEPOrigem (\<lambda>v. norm_cep U (Some v)) (norm_cep_series U)
           = Inr df6" and
    s7: "concat_keys io df6 = Inr df"
    unfolding add_keys_def by (auto dest!: bind_exn_Inr)
  have cols: "set (columns df6) = set (columns df0)
           \<union> {Remetente, EnderecoOrigem, CEPOrigem, remetente_norm, endereco_norm, cep_norm}"
    by (auto simp: apply_column_labels(1)[OF s1] apply_column_labels(1)[OF s2]
        apply_column_labels(1)[OF s3] apply_column_labels(1)[OF s4]
        apply_column_labels(1)[OF s5] apply_column_labels(1)[OF s6])
  have once: "count_label df6 l \<le> 1" if "count_label df0 l \<le> 1" for l
    by (intro apply_column_once[OF s6] apply_column_once[OF s5] apply_column_once[OF s4]
        apply_column_once[OF s3] apply_column_once[OF s2] apply_column_once[OF s1] that)
  from assms(2) have "count_label df0 remetente_norm \<le> 1" "count_label df0 endereco_norm \<le> 1"
    "count_label df0 cep_norm \<le> 1"
    by simp_all
  then have "count_label df6 remetente_norm \<le> 1" "count_label df6 endereco_norm \<le> 1"
    "count_label df6 cep_norm \<le> 1"
    by (blast intro: once)+
  then have "getitem df6 remetente_norm \<noteq> Frame" "getitem df6 endereco_norm \<noteq> Frame"
    "getitem df6 cep_norm \<noteq> Frame"
    by (simp_all add: getitem_Frame_iff)
  with s7 obtain ks where "df = setitem df6 chave ks"
    by (auto simp: concat_keys_def split: selection.splits)
  with cols show ?thesis
    by (auto simp: set_columns_setitem)
qed

text \<open>On an input with a line that is not blank, the columns are there.\<close>

lemma parse_text_columns:
  assumes "parse_text U io text = Inr df" and "nonblank_lines text \<noteq> []"
    and "list_all (\<lambda>l. count_label (build_frame U (nonblank_lines text)) l \<le> 1)
           [remetente_norm, endereco_norm, cep_norm]"
  shows "{Remetente, EnderecoOrigem, CEPOrigem, chave} \<subseteq> set (columns df)"
proof -
  from assms(1,2) have "add_keys U io (build_frame U (nonblank_lines text)) = Inr df"
    by (simp add: parse_text_def Let_def)
  from columns_add_keys[OF this assms(3)] show ?thesis by auto
qed

text \<open>
  The parser on a file whose header names the sender twice, and on a file with commas
  for delimiters.
\<close>

lemma file_ext_txt: "file_ext U (py ''dia.txt'') = py ''txt''"
  by (simp add: file_ext_def lower_def upt_rec nth_Cons')

lemma two_senders_lines:
  "nonblank_lines (py ''remetent  remetent\<newline>A  B'') = [py ''remetent  remetent'', py ''A  B'']"
  by (simp add: nonblank_lines_def splitlines_def is_linebreak_def strip_def is_space_def rstrip_def)

lemma two_senders_decode:
  "try_decode_bytes (pyb ''remetent  remetent\<newline>A  B'') = py ''remetent  remetent\<newline>A  B''"
  by (simp add: try_decode_bytes_def default_encodings_def)

lemma two_senders_header_index:
  "encontrar_linha_cabecalho U [py ''remetent  remetent'', py ''A  B''] = 0"
  by (simp add: encontrar_linha_cabecalho_def lower_def upt_rec nth_Cons' contains_def sublist_code)

lemma two_senders_header: "split_linha (py ''remetent  remetent'') = [py ''remetent'', py ''remetent'']"
  by (simp add: split_linha_def is_space_def)

lemma two_senders_rows:
  "map (build_row [py ''remetent'', py ''remetent'']) [py ''A  B''] = [[Str (py ''A''), Str (py ''B'')]]"
  by (simp add: build_row_def split_linha_def is_space_def)

lemma canonical_remetent: "canonical U (py ''remetent'') = Remetente"
  by (simp add: canonical_def lower_def upt_rec nth_Cons' strip_def is_space_def contains_def
      sublist_code)

lemma two_senders_frame:
  "ensure_columns (rename (DataFrame [[Str (py ''A''), Str (py ''B'')]]
                                     [py ''remetent'', py ''remetent''])
                          (make_colmap U [py ''remetent'', py ''remetent'']))
   = [(Remetente, [Str (py ''A'')]), (Remetente, [Str (py ''B'')]), (EnderecoOrigem, [Str []]),
      (CEPOrigem, [Str []])]"
  by (simp add: DataFrame_def make_colmap_def rename_def canonical_remetent[simplified]
      ensure_columns_def columns_def setitem_scalar_def setitem_def len_df_def label_defs)

lemma two_senders_keys:
  "add_keys U io [(Remetente, [Str (py ''A'')]), (Remetente, [Str (py ''B'')]),
                  (EnderecoOrigem, [Str []]), (CEPOrigem, [Str []])] = Inl (ambiguous io)"
  by (simp add: add_keys_def apply_column_def getitem_def bind_exn_def clean_txt_series_def
      len_df_def)

lemma two_senders_parse:
  "parse_txt_to_df U io fs (Inr (pyb ''remetent  remetent\<newline>A  B'')) = Inl (ambiguous io)"
proof -
  have "parse_text U io (py ''remetent  remetent\<newline>A  B'')
          = add_keys U io [(Remetente, [Str (py ''A'')]), (Remetente, [Str (py ''B'')]),
               (EnderecoOrigem, [Str []]), (CEPOrigem, [Str []])]"
    by (rule parse_text_stages[OF two_senders_lines _ two_senders_header_index _ _ two_senders_frame])
       (simp_all add: two_senders_header[simplified] two_senders_rows[simplified])
  then show ?thesis
    by (simp only: parse_txt_to_df_def sum.case two_senders_decode two_senders_keys)
qed

lemma comma_file_decode:
  "try_decode_bytes (pyb ''Remetente,CEP\<newline>Ab,12'') = py ''Remetente,CEP\<newline>Ab,12''"
  by (simp add: try_decode_bytes_def default_encodings_def)

lemma comma_file_lines:
  "nonblank_lines (py ''Remetente,CEP\<newline>Ab,12'') = [py ''Remetente,CEP'', py ''Ab,12'']"
  by (simp add: nonblank_lines_def splitlines_def is_linebreak_def strip_def is_space_def rstrip_def)

lemma comma_file_header_index:
  "encontrar_linha_cabecalho U [py ''Remetente,CEP'', py ''Ab,12''] = 0"
  by (simp add: encontrar_linha_cabecalho_def lower_def upt_rec nth_Cons' contains_def sublist_code)

lemma comma_file_header: "split_linha (py ''Remetente,CEP'') = [py ''Remetente,CEP'']"
  by (simp add: split_linha_def is_space_def)

lemma comma_file_rows:
  "map (build_row [py ''Remetente,CEP'']) [py ''Ab,12''] = [[Str (py ''Ab,12'')]]"
  by (simp add: build_row_def split_linha_def is_space_def)

lemma canonical_Remetente_CEP: "canonical U (py ''Remetente,CEP'') = Remetente"
  by (simp add: canonical_def lower_def upt_rec nth_Cons' strip_def is_space_def contains_def
      sublist_code)

lemma comma_file_frame:
  "ensure_columns (rename (DataFrame [[Str (py ''Ab,12'')]] [py ''Remetente,CEP''])
                          (make_colmap U [py ''Remetente,CEP'']))
   = [(Remetente, [Str (py ''Ab,12'')]), (EnderecoOrigem, [Str []]), (CEPOrigem, [Str []])]"
  by (simp add: DataFrame_def make_colmap_def rename_def canonical_Remetente_CEP[simplified]
      ensure_columns_def columns_def setitem_scalar_def setitem_def len_df_def label_defs)

lemma comma_file_values:
  "clean_txt (Some (Str (py ''Ab,12''))) = py ''Ab,12''"
  "clean_txt (Some (Str [])) = []"
  "norm_text U (py ''Ab,12'') = py ''AB 12''"
  "norm_text U [] = []"
  "norm_cep U (Some (Str [])) = []"
  by (simp_all add: clean_txt_def norm_text_def norm_cep_def strip_def is_space_def
      replace_char_def upper_def unidecode_def is_word_def is_digit_def zfill_def)

lemma comma_file_keys:
  "add_keys U io [(Remetente, [Str (py ''Ab,12'')]), (EnderecoOrigem, [Str []]),
                  (CEPOrigem, [Str []])]
   = Inr [(Remetente, [Str (py ''Ab,12'')]), (EnderecoOrigem, [Str []]), (CEPOrigem, [Str []]),
          (remetente_norm, [Str (py ''AB 12'')]), (endereco_norm, [Str []]),
          (cep_norm, [Str []]), (chave, [Str (py ''AB 12||'')])]"
  by (simp add: add_keys_def apply_column_def concat_keys_def getitem_def bind_exn_def
      setitem_def columns_def label_defs join_keys_def chave_str_def
      comma_file_values[simplified])

lemma comma_file_parse:
  "parse_text U io (try_decode_bytes (pyb ''Remetente,CEP\<newline>Ab,12''))
   = Inr [(Remetente, [Str (py ''Ab,12'')]), (EnderecoOrigem, [Str []]), (CEPOrigem, [Str []]),
          (remetente_norm, [Str (py ''AB 12'')]), (endereco_norm, [Str []]),
          (cep_norm, [Str []]), (chave, [Str (py ''AB 12||'')])]"
proof -
  have "parse_text U io (py ''Remetente,CEP\<newline>Ab,12'')
          = add_keys U io [(Remetente, [Str (py ''Ab,12'')]), (EnderecoOrigem, [Str []]),
               (CEPOrigem, [Str []])]"
    by (rule parse_text_stages[OF comma_file_lines _ comma_file_header_index _ _ comma_file_frame])
       (simp_all add: comma_file_header[simplified] comma_file_rows[simplified])
  then show ?thesis
    by (simp only: comma_file_decode comma_file_keys)
qed

text \<open>
  The parser on a file that is one header line naming the postal code twice, without
  records, and on the same header with one record under it.
\<close>

lemma header_only_decode:
  "try_decode_bytes (pyb ''CEP Origem  CEP Origem'') = py ''CEP Origem  CEP Origem''"
  by (simp add: try_decode_bytes_def default_encodings_def)

lemma header_only_lines:
  "nonblank_lines (py ''CEP Origem  CEP Origem'') = [py ''CEP Origem  CEP Origem'']"
  by (simp add: nonblank_lines_def splitlines_def is_linebreak_def strip_def is_space_def rstrip_def)

lemma header_only_header_index:
  "encontrar_linha_cabecalho U [py ''CEP Origem  CEP Origem''] = 0"
  by (simp add: encontrar_linha_cabecalho_def lower_def upt_rec nth_Cons' contains_def sublist_code)

lemma header_only_header:
  "split_linha (py ''CEP Origem  CEP Origem'') = [py ''CEP Origem'', py ''CEP Origem'']"
  by (simp add: split_linha_def is_space_def)

lemma header_only_frame:
  "ensure_columns (rename (DataFrame [] [py ''CEP Origem'', py ''CEP Origem''])
                          (make_colmap U [py ''CEP Origem'', py ''CEP Origem'']))
   = [(CEPOrigem, []), (CEPOrigem, []), (Remetente, []), (EnderecoOrigem, [])]"
  by (simp add: DataFrame_def make_colmap_def rename_def canonical_CEP_Origem[simplified]
      ensure_columns_def columns_def setitem_scalar_def setitem_def len_df_def label_defs)

lemma norm_cep_empty_series:
  "norm_cep U (Some (Str (py ''Series([], dtype: float64)''))) = py ''00000064''"
  by (simp add: norm_cep_def is_digit_def zfill_def replicate_numeral)

lemma header_only_keys:
  "add_keys U io [(CEPOrigem, []), (CEPOrigem, []), (Remetente, []), (EnderecoOrigem, [])]
   = Inr [(CEPOrigem, [NaN, NaN]), (CEPOrigem, [NaN, NaN]), (Remetente, [NaN, NaN]),
          (EnderecoOrigem, [NaN, NaN]), (remetente_norm, [NaN, NaN]),
          (endereco_norm, [NaN, NaN]),
          (cep_norm, [Str (py ''00000064''), Str (py ''00000064'')]), (chave, [NaN, NaN])]"
  by (simp add: add_keys_def apply_column_def getitem_def bind_exn_def setitem_def
      setitem_frame_def setitem_grow_def count_label_def len_df_def clean_txt_series_def
      norm_text_series_def norm_cep_series_def concat_keys_def
      columns_def label_defs join_keys_def norm_cep_empty_series[simplified])

text \<open>
  A header line that names the sender twice, without records: the clean-up passes, and
  the frame that \<open>apply\<close> returns cannot be assigned to \<open>remetente_norm\<close>.
\<close>

lemma senders_only_decode:
  "try_decode_bytes (pyb ''remetent  remetent'') = py ''remetent  remetent''"
  by (simp add: try_decode_bytes_def default_encodings_def)

lemma senders_only_lines:
  "nonblank_lines (py ''remetent  remetent'') = [py ''remetent  remetent'']"
  by (simp add: nonblank_lines_def splitlines_def is_linebreak_def strip_def is_space_def rstrip_def)

lemma senders_only_header_index:
  "encontrar_linha_cabecalho U [py ''remetent  remetent''] = 0"
  by (simp add: encontrar_linha_cabecalho_def lower_def upt_rec nth_Cons' contains_def sublist_code)

lemma senders_only_frame:
  "ensure_columns (rename (DataFrame [] [py ''remetent'', py ''remetent''])
                          (make_colmap U [py ''remetent'', py ''remetent'']))
   = [(Remetente, []), (Remetente, []), (EnderecoOrigem, []), (CEPOrigem, [])]"
  by (simp add: DataFrame_def make_colmap_def rename_def canonical_remetent[simplified]
      ensure_columns_def columns_def setitem_scalar_def setitem_def len_df_def label_defs)

lemma senders_only_keys:
  "add_keys U io [(Remetente, []), (Remetente, []), (EnderecoOrigem, []), (CEPOrigem, [])]
   = Inl (ValueError (message io (Multiple_columns remetente_norm)))"
  by (simp add: add_keys_def apply_column_def getitem_def bind_exn_def setitem_def
      setitem_frame_def count_label_def len_df_def clean_txt_series_def
      norm_text_series_def columns_def label_defs)

lemma senders_only_parse:
  "parse_txt_to_df U io fs (Inr (pyb ''remetent  remetent''))
   = Inl (ValueError (message io (Multiple_columns remetente_norm)))"
proof -
  have "parse_text U io (py ''remetent  remetent'')
          = add_keys U io [(Remetente, []), (Remetente, []), (EnderecoOrigem, []),
                           (CEPOrigem, [])]"
    by (rule parse_text_stages[OF senders_only_lines _ senders_only_header_index _ _
          senders_only_frame])
       (simp_all add: two_senders_header[simplified])
  then show ?thesis
    by (simp only: parse_txt_to_df_def sum.case senders_only_decode senders_only_keys)
qed

lemma two_ceps_decode:
  "try_decode_bytes (pyb ''CEP Origem  CEP Origem\<newline>1  2'') = py ''CEP Origem  CEP Origem\<newline>1  2''"
  by (simp add: try_decode_bytes_def default_encodings_def)

lemma two_ceps_lines:
  "nonblank_lines (py ''CEP Origem  CEP Origem\<newline>1  2'') = [py ''CEP Origem  CEP Origem'', py ''1  2'']"
  by (simp add: nonblank_lines_def splitlines_def is_linebreak_def strip_def is_space_def rstrip_def)

lemma two_ceps_header_index:
  "encontrar_linha_cabecalho U [py ''CEP Origem  CEP Origem'', py ''1  2''] = 0"
  by (simp add: encontrar_linha_cabecalho_def lower_def upt_rec nth_Cons' contains_def sublist_code)

lemma two_ceps_rows:
  "map (build_row [py ''CEP Origem'', py ''CEP Origem'']) [py ''1  2''] = [[Str (py ''1''), Str (py ''2'')]]"
  by (simp add: build_row_def split_linha_def is_space_def)

lemma two_ceps_frame:
  "ensure_columns (rename (DataFrame [[Str (py ''1''), Str (py ''2'')]]
                                     [py ''CEP Origem'', py ''CEP Origem''])
                          (make_colmap U [py ''CEP Origem'', py ''CEP Origem'']))
   = [(CEPOrigem, [Str (py ''1'')]), (CEPOrigem, [Str (py ''2'')]), (Remetente, [Str []]),
      (EnderecoOrigem, [Str []])]"
  by (simp add: DataFrame_def make_colmap_def rename_def canonical_CEP_Origem[simplified]
      ensure_columns_def columns_def setitem_scalar_def setitem_def len_df_def label_defs)

lemma two_ceps_keys:
  "add_keys U io [(CEPOrigem, [Str (py ''1'')]), (CEPOrigem, [Str (py ''2'')]),
                  (Remetente, [Str []]), (EnderecoOrigem, [Str []])] = Inl (ambiguous io)"
  by (simp add: add_keys_def apply_column_def getitem_def bind_exn_def clean_txt_series_def
      len_df_def setitem_def columns_def label_defs clean_txt_def strip_def replace_char_def)

lemma two_ceps_parse:
  "parse_txt_to_df U io fs (Inr (pyb ''CEP Origem  CEP Origem\<newline>1  2'')) = Inl (ambiguous io)"
proof -
  have "parse_text U io (py ''CEP Origem  CEP Origem\<newline>1  2'')
          = add_keys U io [(CEPOrigem, [Str (py ''1'')]), (CEPOrigem, [Str (py ''2'')]),
                  (Remetente, [Str []]), (EnderecoOrigem, [Str []])]"
    by (rule parse_text_stages[OF two_ceps_lines _ two_ceps_header_index _ _ two_ceps_frame])
       (simp_all add: header_only_header[simplified] two_ceps_rows[simplified])
  then show ?thesis
    by (simp only: parse_txt_to_df_def sum.case two_ceps_decode two_ceps_keys)
qed

section \<open>Properties of the base and of the cross-check\<close>

lemma load_snapshot_frame:
  "DF_MATCH (load_snapshot U io s) = DF_MATCH s \<and> disk (load_snapshot U io s) = disk s"
  by (simp add: load_snapshot_def split: option.splits sum.splits)

lemma convert_txt_DF_MATCH: "convert_txt U io s = Inr s' \<Longrightarrow> DF_MATCH s' = DF_MATCH s"
  by (auto simp: convert_txt_def Let_def dest!: bind_exn_Inr split: if_splits sum.splits)

lemma ensure_base_loaded_DF_MATCH:
  "ensure_base_loaded U io s0 = Inr s \<Longrightarrow> DF_MATCH s = DF_MATCH s0"
  by (auto simp: ensure_base_loaded_def Let_def load_snapshot_frame
           dest!: convert_txt_DF_MATCH split: if_splits)

text \<open>A snapshot that loads and lacks the key column is parsed again, as text.\<close>

lemma ensure_base_loaded_snapshot_without_chave:
  assumes "DF_BASE s = None" and "disk s BASE_CSV = Some csv" and "read_csv io csv = Inr df"
    and "chave \<notin> set (columns df)"
    and "parse_text U io (try_decode_bytes csv) = Inr df'"
  shows "ensure_base_loaded U io s = Inr (s\<lparr>DF_BASE := Some df'\<rparr>)"
  using assms
  by (simp add: ensure_base_loaded_def load_snapshot_def parse_txt_to_df_def open_rb_def
      bind_exn_def Let_def)

text \<open>A snapshot that fails to load is left aside, and the base is built from \<open>base.txt\<close>.\<close>

lemma ensure_base_loaded_snapshot_unreadable:
  assumes "DF_BASE s = None" and "disk s BASE_CSV = Some csv" and "read_csv io csv = Inl e"
    and "disk s BASE_TXT = Some txt"
    and "parse_text U io (try_decode_bytes txt) = Inr dfb"
  shows "\<exists>s'. ensure_base_loaded U io s = Inr s' \<and> DF_BASE s' = Some dfb"
  using assms
  by (simp add: ensure_base_loaded_def load_snapshot_def convert_txt_def parse_txt_to_df_def
      open_rb_def bind_exn_def Let_def split: sum.splits)

text \<open>
  When both frames have the key column once and the daily frame has rows, the
  cross-check returns the daily frame with the flag column, each column cut down to the
  rows whose key is a key of the base, in the order of the file.
\<close>

lemma flagged_filter:
  "flagged (map (\<lambda>k. Bool (P k)) ks) vs = map snd (filter (\<lambda>(k, v). P k) (zip ks vs))"
proof (induction ks arbitrary: vs)
  case Nil
  then show ?case by (simp add: flagged_def)
next
  case (Cons k ks)
  then show ?case by (cases vs) (auto simp: flagged_def)
qed

lemma repetidos_flagged:
  assumes "getitem base chave = Series bk" and "getitem df_dia chave = Series ks"
    and "ks \<noteq> []" and "is_repetido \<notin> set (columns df_dia)"
  shows "repetidos base df_dia =
           Inr (map (\<lambda>(l, vs). (l, map snd (filter (\<lambda>(k, v). in_keys k (set (map str_of bk)))
                                                  (zip ks vs))))
                    (df_dia @ [(is_repetido, map (\<lambda>k. Bool (in_keys k (set (map str_of bk)))) ks)]))"
proof -
  let ?flags = "map (\<lambda>k. Bool (in_keys k (set (map str_of bk)))) ks"
  have "filter (\<lambda>(l, vs). l = is_repetido) df_dia = []"
    using assms(4) by (force simp: columns_def filter_empty_conv)
  then have "getitem (setitem df_dia is_repetido ?flags) is_repetido = Series ?flags"
    using assms(4) by (simp add: getitem_def setitem_def)
  with assms show ?thesis
    by (simp add: repetidos_def series_def bind_exn_def Let_def getitem_flags_def
        select_rows_def setitem_def flagged_filter)
qed

text \<open>
  On a daily frame without rows the result has no columns; the route stores it and
  then raises when it selects the three columns of the preview.
\<close>

lemma cruzar_no_rows:
  assumes "DF_BASE s = Some base" and "getitem base chave = Series bk"
    and "getitem df_dia chave = Series []" and "is_repetido \<notin> set (columns df_dia)"
  shows "cruzar io s df_dia =
           (s\<lparr>DF_MATCH := Some []\<rparr>,
            Inl (KeyError (message io (Missing_labels [Remetente, EnderecoOrigem, CEPOrigem]
                                         [Remetente, EnderecoOrigem, CEPOrigem]))))"
proof -
  have "filter (\<lambda>(l, vs). l = is_repetido) df_dia = []"
    using assms(4) by (force simp: columns_def filter_empty_conv)
  then have "getitem (setitem df_dia is_repetido []) is_repetido = Series []"
    using assms(4) by (simp add: getitem_def setitem_def)
  with assms have "repetidos base df_dia = Inr []"
    by (simp add: repetidos_def series_def bind_exn_def Let_def getitem_flags_def)
  with assms(1) show ?thesis
    by (simp add: cruzar_def select_columns_def columns_def Let_def)
qed

section \<open>Claims about the normalisation\<close>

text \<open>
  Claim C3, as amended.  Postal normalisation keeps the characters that are digits,
  in order.  If there is none the result is the empty string; otherwise it is the digit
  sequence with zeros on its left up to a length of 8, so its length is the larger of 8
  and the number of digits: a sequence of more than 8 digits is kept whole.  In
  particular \<open>12.345-678\<close> gives \<open>12345678\<close>, \<open>123\<close> gives \<open>00000123\<close> and the
  empty string gives the empty string.
\<close>

theorem norm_cep_pads_to_at_least_8:
  "norm_cep U (Some (Str s)) =
     (if filter (is_digit U) s = [] then []
      else replicate (8 - length (filter (is_digit U) s)) 48 @ filter (is_digit U) s)
   \<and> length (norm_cep U (Some (Str s))) =
       (if filter (is_digit U) s = [] then 0 else max 8 (length (filter (is_digit U) s)))
   \<and> norm_cep U (Some (Str (py ''12.345-678''))) = py ''12345678''
   \<and> norm_cep U (Some (Str (py ''123''))) = py ''00000123''
   \<and> norm_cep U (Some (Str [])) = []"
proof (intro conjI)
  show "norm_cep U (Some (Str s)) =
     (if filter (is_digit U) s = [] then []
      else replicate (8 - length (filter (is_digit U) s)) 48 @ filter (is_digit U) s)"
    by (rule norm_cep_Str)
  show "length (norm_cep U (Some (Str s))) =
       (if filter (is_digit U) s = [] then 0 else max 8 (length (filter (is_digit U) s)))"
    by (auto simp: norm_cep_Str max_def)
qed (rule norm_cep_examples)+

text \<open>The theorem of C3 at the input \<open>1.2\<close>.\<close>

theorem norm_cep_pads_witness:
  "norm_cep ascii_db (Some (Str (py ''1.2''))) = py ''00000012''
   \<and> length (norm_cep ascii_db (Some (Str (py ''1.2'')))) = 8"
  using norm_cep_pads_to_at_least_8 [of ascii_db "py ''1.2''"]
  by (simp add: is_digit_def replicate_numeral)

text \<open>
  Claim C3 as stated fails: digits remain of \<open>123456789\<close>, and the result does not
  have exactly 8 characters.
\<close>

theorem norm_cep_nine_digits:
  "filter (is_digit ascii_db) (py ''123456789'') \<noteq> []
   \<and> length (norm_cep ascii_db (Some (Str (py ''123456789'')))) \<noteq> 8"
  by (simp add: norm_cep_def is_digit_def zfill_def)

text \<open>
  Claim C4 says that text normalisation is a fixed point.  The code strips the ends of
  the string before it turns punctuation into spaces, so a full stop at the end leaves
  a space there, which a second normalisation removes: the normal form of
  \<open>Acme Ltda.\<close> is not its own normal form.  (The postal half of the claim holds:
  \<open>norm_cep_idem\<close>.)
\<close>

theorem norm_text_not_fixed_point:
  "norm_text U (py ''Acme Ltda.'') = py ''ACME LTDA ''
   \<and> norm_text U (norm_text U (py ''Acme Ltda.'')) = py ''ACME LTDA''
   \<and> norm_text U (norm_text U (py ''Acme Ltda.'')) \<noteq> norm_text U (py ''Acme Ltda.'')"
  by (simp add: norm_text_def upper_def unidecode_def strip_def is_word_def is_space_def)

section \<open>Claims about the tokenizer and the decoder\<close>

text \<open>
  Claim C7.  For every line, \<open>split_linha\<close> is the three-tier fallback of the
  specification: a line with a tab is split on its runs of one or more tabs, whatever
  spaces it has; any other line is split on its runs of two or more whitespace
  characters; and if that gives a single token, on its runs of one or more.
\<close>

theorem split_linha_three_tier:
  "split_linha linha =
     (if 9 \<in> set linha then split_on_runs (\<lambda>c. c = 9) 1 linha
      else if length (split_on_runs is_space 2 linha) = 1 then split_on_runs is_space 1 linha
      else split_on_runs is_space 2 linha)"
  by (simp add: split_linha_def split_on_runs_def re_split_runs_fields Let_def)

text \<open>
  The theorem of C7 on a line with a tab run and a double space, on a line with a double
  space only, and on a line with single spaces only.
\<close>

theorem split_linha_witness:
  "split_linha [97, 32, 32, 98, 9, 9, 99, 32, 100] = [[97, 32, 32, 98], [99, 32, 100]]
   \<and> split_linha (py ''Sao Paulo  SP'') = [py ''Sao Paulo'', py ''SP'']
   \<and> split_linha (py ''Sao Paulo SP'') = [py ''Sao'', py ''Paulo'', py ''SP'']"
  using split_linha_three_tier [of "[97, 32, 32, 98, 9, 9, 99, 32, 100]"]
    split_linha_three_tier [of "py ''Sao Paulo  SP''"]
    split_linha_three_tier [of "py ''Sao Paulo SP''"]
  by (simp add: split_on_runs_def is_space_def)

text \<open>
  Claim C10.  For every byte sequence the decoder returns the text of the strict UTF-8
  decoding, or, when that fails, of the Latin-1 decoding, which gives every byte its
  code point.  The loop never reaches the cp1252 attempt, and the lossy last resort
  after the loop is never taken.  No byte is lost: the text of a strict UTF-8 decoding
  encodes back to the input, and the Latin-1 text is the input byte by byte.
\<close>

theorem try_decode_bytes_utf8_or_latin1:
  "try_encodings default_encodings b =
     (case utf8_strict (map unat b) of
        Some text \<Rightarrow> (Codec UTF8, text)
      | None \<Rightarrow> (Codec Latin1, map unat b))
   \<and> try_decode_bytes b =
     (case utf8_strict (map unat b) of Some text \<Rightarrow> text | None \<Rightarrow> map unat b)
   \<and> fst (try_encodings default_encodings b) \<noteq> Codec CP1252
   \<and> fst (try_encodings default_encodings b) \<noteq> Last_resort
   \<and> (case utf8_strict (map unat b) of
         Some text \<Rightarrow> concat (map utf8_encode text) = map unat b
       | None \<Rightarrow> map of_nat (try_decode_bytes b) = b)"
proof -
  have "concat (map utf8_encode t) = map unat b" if "utf8_strict (map unat b) = Some t" for t
    using that by (rule utf8_strict_lossless)
  moreover have "map of_nat (map unat b) = b"
    by (simp add: map_idI)
  ultimately show ?thesis
    by (simp add: try_decode_bytes_def default_encodings_def split: option.splits)
qed

text \<open>
  The theorem of C10 on the UTF-8 bytes of c-cedilla, and on its Latin-1 byte followed
  by a letter, which is not UTF-8.
\<close>

theorem try_decode_bytes_witness:
  "try_encodings default_encodings [0xC3, 0xA7] = (Codec UTF8, [231])
   \<and> try_encodings default_encodings [0xE7, 0x61] = (Codec Latin1, [231, 97])"
  using try_decode_bytes_utf8_or_latin1 [of "[0xC3, 0xA7]"]
    try_decode_bytes_utf8_or_latin1 [of "[0xE7, 0x61]"]
  by (simp add: is_cont_def)

section \<open>Claims about the key\<close>

text \<open>
  Claim C8 says that every key the pipeline produces holds exactly two pipes, between
  three normalised fields.  On a file that is one header line naming the postal code
  twice, with no record under it, the parser returns a frame of two rows, one for each
  of the two columns, and their keys are \<open>NaN\<close>, not strings: \<open>apply\<close> hands
  \<open>norm_cep\<close> a series, \<open>norm_cep\<close> makes \<open>00000064\<close> of its \<open>str\<close>, and
  the assignment of these two values gives the frame two rows, missing in every other
  column.  (With one record under the same header the parser raises: \<open>two_ceps_parse\<close>.
  When no label read by lines 133 to 155 names two columns, the keys are as the claim
  says: \<open>parse_text_chave_two_pipes\<close>.)
\<close>

theorem parse_header_only_nan_keys:
  "parse_txt_to_df U io fs (Inr (pyb ''CEP Origem  CEP Origem''))
   = Inr [(CEPOrigem, [NaN, NaN]), (CEPOrigem, [NaN, NaN]), (Remetente, [NaN, NaN]),
          (EnderecoOrigem, [NaN, NaN]), (remetente_norm, [NaN, NaN]),
          (endereco_norm, [NaN, NaN]),
          (cep_norm, [Str (py ''00000064''), Str (py ''00000064'')]), (chave, [NaN, NaN])]"
proof -
  have "parse_text U io (py ''CEP Origem  CEP Origem'')
          = add_keys U io [(CEPOrigem, []), (CEPOrigem, []), (Remetente, []), (EnderecoOrigem, [])]"
    by (rule parse_text_stages[OF header_only_lines _ header_only_header_index _ _ header_only_frame])
       (simp_all add: header_only_header[simplified])
  then show ?thesis
    by (simp only: parse_txt_to_df_def sum.case header_only_decode header_only_keys)
qed

section \<open>Claims about the parser, the base and the upload\<close>

text \<open>
  Claim C2 says that the columns Remetente, EnderecoOrigem, CEPOrigem and chave exist
  for every input, an input without lines included.  On the empty input, and on an input
  of blank lines, the parser returns early with a frame that has no column at all.  (On
  an input with a line that is not blank the columns are there, as long as its header
  does not name a normalised column twice: \<open>parse_text_columns\<close>.)
\<close>

theorem parse_empty_input_has_no_columns:
  "parse_txt_to_df U io fs (Inr []) = Inr empty_frame
   \<and> parse_txt_to_df U io fs (Inr (pyb '' \<newline>'')) = Inr empty_frame
   \<and> columns empty_frame = []
   \<and> getitem empty_frame Remetente = No_label
   \<and> getitem empty_frame EnderecoOrigem = No_label
   \<and> getitem empty_frame CEPOrigem = No_label
   \<and> getitem empty_frame chave = No_label"
  by (simp add: parse_txt_to_df_def parse_text_def try_decode_bytes_def default_encodings_def
      nonblank_lines_def splitlines_def is_linebreak_def strip_def is_space_def
      empty_frame_def columns_def getitem_def)

text \<open>
  Claim C5 says that a column name with an address marker, accented or not, and an
  origin marker is mapped to the origin address, whatever stands between the two.  The
  unaccented spelling is recognised only when \<open>orig\<close> follows it after one space: the
  header \<open>Endereco de Origem\<close> keeps its name, while \<open>Endereco Origem\<close> and the
  accented spelling of the same header are mapped.
\<close>

theorem canonical_misses_unaccented_address:
  "canonical U (py ''Endereco de Origem'') = py ''Endereco de Origem''
   \<and> canonical U (py ''Endereco de Origem'') \<noteq> EnderecoOrigem
   \<and> canonical U (py ''Endereco Origem'') = EnderecoOrigem
   \<and> canonical ascii_db (py ''Endere'' @ [231] @ py ''o de Origem'') = EnderecoOrigem"
  by (simp add: canonical_def lower_def upt_rec nth_Cons' strip_def is_space_def contains_def
      sublist_code label_defs ascii_db_def)

text \<open>
  Claim C6 says that a snapshot that loads but lacks the key column is discarded and
  the base rebuilt from \<open>base.txt\<close>.  The code parses the snapshot \<open>base.csv\<close> itself
  as if it were the text export: with the example files the base is the comma-separated
  line taken as one sender, not the record of \<open>base.txt\<close>, and the snapshot stays on
  disk.  (A snapshot that fails to load is handled as the claim says:
  \<open>ensure_base_loaded_snapshot_unreadable\<close>.)
\<close>

theorem ensure_base_loaded_reparses_snapshot:
  "ensure_base_loaded U io_csv \<lparr>DF_BASE = None, DF_MATCH = None, disk = disk_csv_txt\<rparr>
     = Inr \<lparr>DF_BASE = Some [(Remetente, [Str (py ''Ab,12'')]), (EnderecoOrigem, [Str []]),
                            (CEPOrigem, [Str []]), (remetente_norm, [Str (py ''AB 12'')]),
                            (endereco_norm, [Str []]), (cep_norm, [Str []]),
                            (chave, [Str (py ''AB 12||'')])],
            DF_MATCH = None, disk = disk_csv_txt\<rparr>
   \<and> parse_txt_to_df U io disk_csv_txt (Inl BASE_TXT)
     = Inr [(Remetente, [Str (py ''Ab'')]), (CEPOrigem, [Str (py ''1-2'')]),
            (EnderecoOrigem, [Str []]), (remetente_norm, [Str (py ''AB'')]),
            (endereco_norm, [Str []]), (cep_norm, [Str (py ''00000012'')]),
            (chave, [Str (py ''AB||00000012'')])]"
proof
  let ?s = "\<lparr>DF_BASE = None, DF_MATCH = None, disk = disk_csv_txt\<rparr>"
  have "ensure_base_loaded U io_csv ?s = Inr (?s\<lparr>DF_BASE := Some
          [(Remetente, [Str (py ''Ab,12'')]), (EnderecoOrigem, [Str []]),
           (CEPOrigem, [Str []]), (remetente_norm, [Str (py ''AB 12'')]),
           (endereco_norm, [Str []]), (cep_norm, [Str []]),
           (chave, [Str (py ''AB 12||'')])]\<rparr>)"
    by (rule ensure_base_loaded_snapshot_without_chave[OF _ _ _ _ comma_file_parse])
       (auto simp: disk_csv_txt_def io_csv_def columns_def label_defs)
  then show "ensure_base_loaded U io_csv ?s
     = Inr \<lparr>DF_BASE = Some [(Remetente, [Str (py ''Ab,12'')]), (EnderecoOrigem, [Str []]),
                            (CEPOrigem, [Str []]), (remetente_norm, [Str (py ''AB 12'')]),
                            (endereco_norm, [Str []]), (cep_norm, [Str []]),
                            (chave, [Str (py ''AB 12||'')])],
            DF_MATCH = None, disk = disk_csv_txt\<rparr>"
    by simp
  have "parse_txt_to_df U io disk_csv_txt (Inl BASE_TXT)
          = parse_txt_to_df U io disk_csv_txt (Inr (pyb ''Remetente  CEP Origem\<newline>Ab  1-2''))"
    by (simp add: parse_txt_to_df_def open_rb_def disk_csv_txt_def bind_exn_def)
  then show "parse_txt_to_df U io disk_csv_txt (Inl BASE_TXT)
     = Inr [(Remetente, [Str (py ''Ab'')]), (CEPOrigem, [Str (py ''1-2'')]),
            (EnderecoOrigem, [Str []]), (remetente_norm, [Str (py ''AB'')]),
            (endereco_norm, [Str []]), (cep_norm, [Str (py ''00000012'')]),
            (chave, [Str (py ''AB||00000012'')])]"
    by (simp only: one_record_parse)
qed

text \<open>
  Claim C9.  When the upload passes the checks of the file name and parsing the file of
  the day raises, the route answers with the redirect and the flashed message
  \<open>Erro ao ler arquivo do dia:\<close> followed by the text of the exception, and the stored
  match result is the one from before the request.
\<close>

theorem upload_dia_parse_error:
  assumes "ensure_base_loaded U io s0 = Inr s"
    and "filename f \<noteq> []" and "file_ext U (filename f) \<in> ALLOWED_EXT"
    and "content f = Inr raw" and "parse_txt_to_df U io (disk s) (Inr raw) = Inl e"
  shows "upload_dia U io (Some f) s0 =
           (s, Inr \<lparr>flash_message = py ''Erro ao ler arquivo do dia: '' @ exn_str e,
                    flash_category = Danger, shown = Redirect_index\<rparr>)
         \<and> DF_MATCH s = DF_MATCH s0"
  using assms by (simp add: upload_dia_def bind_exn_def ensure_base_loaded_DF_MATCH)

text \<open>
  The theorem of C9 on a file whose header has two sender columns, with a match result
  stored before the request.
\<close>

theorem upload_dia_parse_error_witness:
  "upload_dia ascii_db io_none
     (Some \<lparr>filename = py ''dia.txt'', content = Inr (pyb ''remetent  remetent\<newline>A  B'')\<rparr>)
     \<lparr>DF_BASE = Some [(chave, [])], DF_MATCH = Some [(chave, [Str (py ''k'')])],
      disk = (\<lambda>p. None)\<rparr>
   = (\<lparr>DF_BASE = Some [(chave, [])], DF_MATCH = Some [(chave, [Str (py ''k'')])],
       disk = (\<lambda>p. None)\<rparr>,
      Inr \<lparr>flash_message =
             py ''Erro ao ler arquivo do dia: The truth value of a Series is ambiguous. Use a.empty, a.bool(), a.item(), a.any() or a.all().'',
           flash_category = Danger, shown = Redirect_index\<rparr>)"
proof -
  let ?s = "\<lparr>DF_BASE = Some [(chave, [])], DF_MATCH = Some [(chave, [Str (py ''k'')])],
             disk = (\<lambda>p. None)\<rparr>"
  let ?f = "\<lparr>filename = py ''dia.txt'', content = Inr (pyb ''remetent  remetent\<newline>A  B'')\<rparr>"
  have 1: "ensure_base_loaded ascii_db io_none ?s = Inr ?s"
    by (simp add: ensure_base_loaded_def)
  have 2: "filename ?f \<noteq> []" by simp
  have 3: "file_ext ascii_db (filename ?f) \<in> ALLOWED_EXT"
    using file_ext_txt[of ascii_db] by (simp add: ALLOWED_EXT_def)
  have 4: "content ?f = Inr (pyb ''remetent  remetent\<newline>A  B'')" by simp
  have 5: "parse_txt_to_df ascii_db io_none (disk ?s)
             (Inr (pyb ''remetent  remetent\<newline>A  B'')) = Inl (ambiguous io_none)"
    by (rule two_senders_parse)
  from upload_dia_parse_error[OF 1 2 3 4 5] show ?thesis
    by (simp add: ambiguous_def io_none_def)
qed

text \<open>
  Claim C1 says that the cross-check returns, for every base and every freshly parsed
  daily frame, the daily records whose key is in the base.  The frame parsed from an
  empty file has no key column, and the route raises \<open>KeyError\<close> on it, outside its
  \<open>try\<close> block, instead of returning the empty result.  (On a daily frame with
  records, when both frames have the key column, the result is the one of the claim:
  \<open>repetidos_flagged\<close>.)
\<close>

theorem upload_dia_empty_file_raises:
  "upload_dia U io (Some \<lparr>filename = py ''dia.txt'', content = Inr []\<rparr>)
     \<lparr>DF_BASE = Some [(chave, ks)], DF_MATCH = m, disk = d\<rparr>
   = (\<lparr>DF_BASE = Some [(chave, ks)], DF_MATCH = m, disk = d\<rparr>, Inl (KeyError chave))"
proof -
  have "parse_txt_to_df U io d (Inr []) = Inr empty_frame"
    by (simp add: parse_txt_to_df_def parse_text_def try_decode_bytes_def default_encodings_def
        nonblank_lines_def splitlines_def)
  moreover have "repetidos [(chave, ks)] empty_frame = Inl (KeyError chave)"
    by (simp add: repetidos_def series_def getitem_def bind_exn_def empty_frame_def)
  ultimately show ?thesis
    using file_ext_txt[of U]
    by (simp add: upload_dia_def ensure_base_loaded_def ALLOWED_EXT_def bind_exn_def cruzar_def)
qed

end
